theory Spec2Isabelle
  imports Main "HOL-Library.Word" "HOL-Library.Sublist"
begin

section \<open>Data model\<close>

text \<open>
  The controller of \<^verbatim>\<open>mesh_gateway_controller.go\<close> works on Kubernetes API objects.
  Every object embeds \<^verbatim>\<open>metav1.ObjectMeta\<close>; Go's struct embedding promotes its fields
  (\<^verbatim>\<open>a.Annotations\<close>, \<^verbatim>\<open>to.Annotations\<close>), which a record extension does as well.
  A Go map is \<^verbatim>\<open>nil\<close> or a finite mapping, hence \<open>(string \<rightharpoonup> string) option\<close>;
  a slice is a list (a \<^verbatim>\<open>nil\<close> slice is the empty list: the code only takes its
  length, ranges over it and copies it).
\<close>

datatype GoPanic = NilPointerDereference | IndexOutOfRange

datatype Error =
    NotFound
  | ApiError string
  | errResourceNotOwned
  | OwnerError string
  | Plain string
  | Wrapped string Error
  | Panic GoPanic

record ServicePort =
  Name :: string
  Protocol :: string
  Port :: "32 word"
  TargetPort :: "32 word"
  NodePort :: "32 word"

record OwnerReference =
  APIVersion :: string
  Kind :: string
  Name :: string
  UID :: string
  Controller :: "bool option"
  BlockOwnerDeletion :: "bool option"

record ObjectMeta =
  Name :: string
  Namespace :: string
  UID :: string
  Labels :: "(string \<rightharpoonup> string) option"
  Annotations :: "(string \<rightharpoonup> string) option"
  OwnerReferences :: "OwnerReference list"

text \<open>
  The controller never inspects the payload of a ServiceAccount, Role, RoleBinding or
  Deployment; their specification fields are kept as opaque data.
\<close>

record ServiceAccount = ObjectMeta +
  Secrets :: "string list"

record Role = ObjectMeta +
  Rules :: "string list"

record RoleBinding = ObjectMeta +
  Subjects :: "string list"
  RoleRef :: string

record DeploymentSpec =
  Replicas :: "32 word option"
  Template :: string

record Deployment = ObjectMeta +
  Spec :: DeploymentSpec

text \<open>The reconciled parent (\<^verbatim>\<open>meshv2beta1.MeshGateway\<close>) and its class configuration.\<close>

record MeshGatewaySpec =
  GatewayClassName :: string

record MeshGateway = ObjectMeta +
  Spec :: MeshGatewaySpec

record ParametersReference =
  Group :: string
  Kind :: string
  Name :: string

record GatewayClassSpec =
  ParametersRef :: "ParametersReference option"

record GatewayClass = ObjectMeta +
  Spec :: GatewayClassSpec

record GatewayClassConfig = ObjectMeta +
  Spec :: string

record ServiceSpec =
  Ports :: "ServicePort list"
  Selector :: "(string \<rightharpoonup> string) option"
  Type :: string

record Service = ObjectMeta +
  Spec :: ServiceSpec

text \<open>
  \<^verbatim>\<open>client.Object\<close> is an interface; the five child kinds implement it. The kind of a
  scan target (\<^verbatim>\<open>&corev1.ServiceAccount{}\<close>, ...) selects what a lookup reads.
\<close>

datatype Object =
    ServiceAccountObject ServiceAccount
  | RoleObject Role
  | RoleBindingObject RoleBinding
  | ServiceObject Service
  | DeploymentObject Deployment

datatype ResourceKind =
    GatewayClassKind
  | GatewayClassConfigKind
  | ServiceAccountKind
  | RoleKind
  | RoleBindingKind
  | ServiceKind
  | DeploymentKind

type_synonym ObjectKey = "string \<times> string"

fun kindOf :: "Object \<Rightarrow> ResourceKind" where
  "kindOf (ServiceAccountObject _) = ServiceAccountKind"
| "kindOf (RoleObject _) = RoleKind"
| "kindOf (RoleBindingObject _) = RoleBindingKind"
| "kindOf (ServiceObject _) = ServiceKind"
| "kindOf (DeploymentObject _) = DeploymentKind"

fun GetName :: "Object \<Rightarrow> string" where
  "GetName (ServiceAccountObject x) = ObjectMeta.Name x"
| "GetName (RoleObject x) = ObjectMeta.Name x"
| "GetName (RoleBindingObject x) = ObjectMeta.Name x"
| "GetName (ServiceObject x) = ObjectMeta.Name x"
| "GetName (DeploymentObject x) = ObjectMeta.Name x"

fun GetNamespace :: "Object \<Rightarrow> string" where
  "GetNamespace (ServiceAccountObject x) = Namespace x"
| "GetNamespace (RoleObject x) = Namespace x"
| "GetNamespace (RoleBindingObject x) = Namespace x"
| "GetNamespace (ServiceObject x) = Namespace x"
| "GetNamespace (DeploymentObject x) = Namespace x"

fun GetOwnerReferences :: "Object \<Rightarrow> OwnerReference list" where
  "GetOwnerReferences (ServiceAccountObject x) = OwnerReferences x"
| "GetOwnerReferences (RoleObject x) = OwnerReferences x"
| "GetOwnerReferences (RoleBindingObject x) = OwnerReferences x"
| "GetOwnerReferences (ServiceObject x) = OwnerReferences x"
| "GetOwnerReferences (DeploymentObject x) = OwnerReferences x"

fun SetOwnerReferences :: "OwnerReference list \<Rightarrow> Object \<Rightarrow> Object" where
  "SetOwnerReferences rs (ServiceAccountObject x) = ServiceAccountObject (x\<lparr>OwnerReferences := rs\<rparr>)"
| "SetOwnerReferences rs (RoleObject x) = RoleObject (x\<lparr>OwnerReferences := rs\<rparr>)"
| "SetOwnerReferences rs (RoleBindingObject x) = RoleBindingObject (x\<lparr>OwnerReferences := rs\<rparr>)"
| "SetOwnerReferences rs (ServiceObject x) = ServiceObject (x\<lparr>OwnerReferences := rs\<rparr>)"
| "SetOwnerReferences rs (DeploymentObject x) = DeploymentObject (x\<lparr>OwnerReferences := rs\<rparr>)"

definition keyOf :: "Object \<Rightarrow> ObjectKey" where
  "keyOf obj = (GetNamespace obj, GetName obj)"

section \<open>Comparing and merging Services\<close>

text \<open>
  \<^verbatim>\<open>equality.Semantic.DeepEqual\<close> on two \<^verbatim>\<open>map[string]string\<close> values: a \<^verbatim>\<open>nil\<close> map and an
  empty map are equal; otherwise the maps are equal when they hold the same key/value
  pairs.
\<close>

definition mapping_of :: "(string \<rightharpoonup> string) option \<Rightarrow> (string \<rightharpoonup> string)" where
  "mapping_of m = (case m of None \<Rightarrow> Map.empty | Some f \<Rightarrow> f)"

definition SemanticDeepEqual ::
  "(string \<rightharpoonup> string) option \<Rightarrow> (string \<rightharpoonup> string) option \<Rightarrow> bool" where
  "SemanticDeepEqual a b = (mapping_of a = mapping_of b)"

text \<open>
  The loop of \<^verbatim>\<open>areServicesEqual\<close>:
  \<^verbatim>\<open>for i, port := range a.Spec.Ports { otherPort := b.Spec.Ports[i]; ... }\<close>.
  The index expression panics when \<open>i\<close> is out of range; the first mismatch on
  \<open>Port\<close> or \<open>Protocol\<close> returns false.
\<close>

fun portsLoop :: "nat \<Rightarrow> ServicePort list \<Rightarrow> ServicePort list \<Rightarrow> GoPanic + bool" where
  "portsLoop i [] bs = Inr True"
| "portsLoop i (port # rest) bs =
     (if i < length bs then
        (let otherPort = bs ! i in
         if Port port \<noteq> Port otherPort \<or> Protocol port \<noteq> Protocol otherPort
         then Inr False
         else portsLoop (Suc i) rest bs)
      else Inl IndexOutOfRange)"

text \<open>
  \<^verbatim>\<open>areServicesEqual(a, b *corev1.Service) bool\<close>: a pointer is \<open>None\<close> when \<^verbatim>\<open>nil\<close>.
\<close>

definition areServicesEqual :: "Service option \<Rightarrow> Service option \<Rightarrow> GoPanic + bool" where
  "areServicesEqual a b =
     (if a = None \<or> b = None then Inr True
      else case (a, b) of
        (Some sa, Some sb) \<Rightarrow>
          if \<not> SemanticDeepEqual (Annotations sa) (Annotations sb) then Inr False
          else if length (Ports (Service.Spec sb)) \<noteq> length (Ports (Service.Spec sa)) then Inr False
          else portsLoop 0 (Ports (Spec sa)) (Ports (Spec sb))
      | _ \<Rightarrow> Inl NilPointerDereference)"

text \<open>
  \<^verbatim>\<open>mergeService(from, to *corev1.Service) *corev1.Service\<close>. The two assignments
  dereference \<open>to\<close> and \<open>from\<close>; the returned pointer is \<open>to\<close>, here the updated value.
\<close>

definition mergeService :: "Service option \<Rightarrow> Service option \<Rightarrow> GoPanic + Service option" where
  "mergeService from to =
     (case areServicesEqual from to of
        Inl p \<Rightarrow> Inl p
      | Inr equal \<Rightarrow>
          if equal then Inr to
          else
            (case (from, to) of
               (Some f, Some t) \<Rightarrow>
                 Inr (Some (t\<lparr>Annotations := Annotations f,
                               Spec := (Spec t)\<lparr>Ports := Ports (Spec f)\<rparr>\<rparr>))
             | _ \<Rightarrow> Inl NilPointerDereference))"

text \<open>The pair on which two ports are compared.\<close>

definition portKey :: "ServicePort \<Rightarrow> 32 word \<times> string" where
  "portKey p = (Port p, Protocol p)"

section \<open>The store and the client\<close>

text \<open>
  Modelled from the spec: the controller-runtime client behind \<^verbatim>\<open>r.Get\<close> and
  \<^verbatim>\<open>controllerutil.CreateOrUpdate\<close> is library code outside the source. It is the
  Store Adapter of the specification (sections 4.3 and 6): \<open>get\<close> returns the object at a
  key, a "not found" failure or another failure; \<open>createOrUpdate\<close> creates the object when
  its key is absent and updates it otherwise, or fails and writes nothing.

  The \<open>World\<close> is the content of the store together with the list of calls the
  controller has made on the client so far, oldest first. The \<open>Client\<close> fixes which
  lookups and which writes fail for a reason of the platform, and with which error.
\<close>

datatype Call =
    GetCall ResourceKind ObjectKey
  | CreateOrUpdateCall Object

record World =
  objects :: "ResourceKind \<times> ObjectKey \<Rightarrow> Object option"
  gatewayClasses :: "string \<Rightarrow> GatewayClass option"
  gatewayClassConfigs :: "string \<Rightarrow> GatewayClassConfig option"
  calls :: "Call list"

record Client =
  getError :: "ResourceKind \<times> ObjectKey \<Rightarrow> Error option"
  writeError :: "ResourceKind \<times> ObjectKey \<Rightarrow> Error option"

definition logCall :: "Call \<Rightarrow> World \<Rightarrow> World" where
  "logCall c w = w\<lparr>calls := calls w @ [c]\<rparr>"

definition Get ::
  "Client \<Rightarrow> ResourceKind \<Rightarrow> ObjectKey \<Rightarrow> World \<Rightarrow> (Error + Object) \<times> World" where
  "Get c kind key w =
     (case getError c (kind, key) of
        Some err \<Rightarrow> (Inl err, logCall (GetCall kind key) w)
      | None \<Rightarrow>
          (case objects w (kind, key) of
             None \<Rightarrow> (Inl NotFound, logCall (GetCall kind key) w)
           | Some obj \<Rightarrow> (Inr obj, logCall (GetCall kind key) w)))"

definition GetGatewayClass ::
  "Client \<Rightarrow> string \<Rightarrow> World \<Rightarrow> (Error + GatewayClass) \<times> World" where
  "GetGatewayClass c name w =
     (case getError c (GatewayClassKind, ([], name)) of
        Some err \<Rightarrow> (Inl err, logCall (GetCall GatewayClassKind ([], name)) w)
      | None \<Rightarrow>
          (case gatewayClasses w name of
             None \<Rightarrow> (Inl NotFound, logCall (GetCall GatewayClassKind ([], name)) w)
           | Some gc \<Rightarrow> (Inr gc, logCall (GetCall GatewayClassKind ([], name)) w)))"

definition GetGatewayClassConfig ::
  "Client \<Rightarrow> string \<Rightarrow> World \<Rightarrow> (Error + GatewayClassConfig) \<times> World" where
  "GetGatewayClassConfig c name w =
     (case getError c (GatewayClassConfigKind, ([], name)) of
        Some err \<Rightarrow> (Inl err, logCall (GetCall GatewayClassConfigKind ([], name)) w)
      | None \<Rightarrow>
          (case gatewayClassConfigs w name of
             None \<Rightarrow> (Inl NotFound, logCall (GetCall GatewayClassConfigKind ([], name)) w)
           | Some cfg \<Rightarrow> (Inr cfg, logCall (GetCall GatewayClassConfigKind ([], name)) w)))"

definition CreateOrUpdate :: "Client \<Rightarrow> Object \<Rightarrow> World \<Rightarrow> Error option \<times> World" where
  "CreateOrUpdate c obj w =
     (case writeError c (kindOf obj, keyOf obj) of
        Some err \<Rightarrow> (Some err, logCall (CreateOrUpdateCall obj) w)
      | None \<Rightarrow>
          (None, logCall (CreateOrUpdateCall obj)
                   (w\<lparr>objects := (objects w)((kindOf obj, keyOf obj) := Some obj)\<rparr>)))"

text \<open>
  \<^verbatim>\<open>k8serr.IsNotFound\<close> looks through wrapped errors; \<^verbatim>\<open>client.IgnoreNotFound\<close> turns
  a "not found" error into \<^verbatim>\<open>nil\<close>.
\<close>

fun IsNotFound :: "Error \<Rightarrow> bool" where
  "IsNotFound NotFound = True"
| "IsNotFound (Wrapped _ err) = IsNotFound err"
| "IsNotFound _ = False"

definition IgnoreNotFound :: "Error \<Rightarrow> Error option" where
  "IgnoreNotFound err = (if IsNotFound err then None else Some err)"

text \<open>\<^verbatim>\<open>fmt.Errorf("...: %w", err)\<close> wraps an error value.\<close>

definition Errorf :: "string \<Rightarrow> Error \<Rightarrow> Error" where
  "Errorf msg err = Wrapped msg err"

section \<open>Stamping the owner reference\<close>

text \<open>
  Modelled from the spec: \<^verbatim>\<open>ctrl.SetControllerReference\<close> is library code outside the
  source. Section 4.3, step 1: it stamps the payload with an owner reference derived
  from the parent. The source handles its failure, so the model keeps the cases in which
  the helper refuses: an owner in another namespace than the payload, and a payload
  already controlled by a different object. Otherwise the reference replaces the entry
  for the same owner or is appended.
\<close>

definition MeshGroup :: string where
  "MeshGroup = ''mesh.consul.hashicorp.com''"

definition groupOf :: "string \<Rightarrow> string" where
  "groupOf apiVersion =
     (if CHR ''/'' \<in> set apiVersion then takeWhile (\<lambda>c. c \<noteq> CHR ''/'') apiVersion else [])"

definition referSameObject :: "OwnerReference \<Rightarrow> OwnerReference \<Rightarrow> bool" where
  "referSameObject a b =
     (groupOf (APIVersion a) = groupOf (APIVersion b) \<and>
      OwnerReference.Kind a = OwnerReference.Kind b \<and>
      OwnerReference.Name a = OwnerReference.Name b)"

fun upsertOwnerRef :: "OwnerReference \<Rightarrow> OwnerReference list \<Rightarrow> OwnerReference list" where
  "upsertOwnerRef ref [] = [ref]"
| "upsertOwnerRef ref (r # rs) =
     (if referSameObject r ref then ref # rs else r # upsertOwnerRef ref rs)"

definition GetControllerOf :: "Object \<Rightarrow> OwnerReference option" where
  "GetControllerOf obj = find (\<lambda>r. Controller r = Some True) (GetOwnerReferences obj)"

definition validateOwner :: "string \<Rightarrow> string \<Rightarrow> Error option" where
  "validateOwner ownerNs objNs =
     (if ownerNs \<noteq> [] then
        (if objNs = [] then
           Some (OwnerError ''cluster-scoped resource must not have a namespace-scoped owner'')
         else if ownerNs \<noteq> objNs then
           Some (OwnerError ''cross-namespace owner references are disallowed'')
         else None)
      else None)"

definition controllerRef :: "MeshGateway \<Rightarrow> OwnerReference" where
  "controllerRef gateway =
     \<lparr>APIVersion = MeshGroup @ ''/v2beta1'', OwnerReference.Kind = ''MeshGateway'',
      OwnerReference.Name = ObjectMeta.Name gateway, OwnerReference.UID = ObjectMeta.UID gateway,
      Controller = Some True, BlockOwnerDeletion = Some True\<rparr>"

definition SetControllerReference :: "MeshGateway \<Rightarrow> Object \<Rightarrow> Error + Object" where
  "SetControllerReference gateway controlled =
     (case validateOwner (Namespace gateway) (GetNamespace controlled) of
        Some err \<Rightarrow> Inl err
      | None \<Rightarrow>
          (case GetControllerOf controlled of
             Some existing \<Rightarrow>
               if \<not> referSameObject existing (controllerRef gateway)
               then Inl (OwnerError ''object is already owned by another controller'')
               else Inr (SetOwnerReferences
                           (upsertOwnerRef (controllerRef gateway) (GetOwnerReferences controlled))
                           controlled)
           | None \<Rightarrow>
               Inr (SetOwnerReferences
                      (upsertOwnerRef (controllerRef gateway) (GetOwnerReferences controlled))
                      controlled)))"

section \<open>The ownership-safe upsert\<close>

text \<open>
  The loop of \<^verbatim>\<open>opIfNewOrOwned\<close> over \<^verbatim>\<open>scanTarget.GetOwnerReferences()\<close>, which
  breaks at the first reference with the gateway's UID and name.
\<close>

fun ownedLoop :: "MeshGateway \<Rightarrow> OwnerReference list \<Rightarrow> bool" where
  "ownedLoop gateway [] = False"
| "ownedLoop gateway (reference # rest) =
     (if OwnerReference.UID reference = ObjectMeta.UID gateway \<and>
         OwnerReference.Name reference = ObjectMeta.Name gateway
      then True
      else ownedLoop gateway rest)"

type_synonym ownedObjectOp = "Object option \<Rightarrow> Object \<Rightarrow> World \<Rightarrow> Error option \<times> World"

text \<open>
  \<^verbatim>\<open>opIfNewOrOwned(ctx, gateway, scanTarget, writeSource, op)\<close>. The scan target is an
  empty object of the kind to look up, so the model passes its kind.
\<close>

definition opIfNewOrOwned ::
  "Client \<Rightarrow> MeshGateway \<Rightarrow> ResourceKind \<Rightarrow> Object \<Rightarrow> ownedObjectOp \<Rightarrow> World
     \<Rightarrow> Error option \<times> World" where
  "opIfNewOrOwned c gateway scanTarget writeSource op w =
     (case SetControllerReference gateway writeSource of
        Inl err \<Rightarrow> (Some err, w)
      | Inr stamped \<Rightarrow>
          (case Get c scanTarget (GetNamespace stamped, GetName stamped) w of
             (Inl err, w') \<Rightarrow>
               if \<not> IsNotFound err then (Some err, w')
               else op None stamped w'
           | (Inr existing, w') \<Rightarrow>
               if \<not> ownedLoop gateway (GetOwnerReferences existing)
               then (Some errResourceNotOwned, w')
               else op (Some existing) stamped w'))"

section \<open>Resolving the class configuration\<close>

definition getGatewayClassForGateway ::
  "Client \<Rightarrow> MeshGateway \<Rightarrow> World \<Rightarrow> (Error + GatewayClass option) \<times> World" where
  "getGatewayClassForGateway c gateway w =
     (case GetGatewayClass c (GatewayClassName (MeshGateway.Spec gateway)) w of
        (Inl err, w') \<Rightarrow>
          (case IgnoreNotFound err of Some e \<Rightarrow> (Inl e, w') | None \<Rightarrow> (Inr None, w'))
      | (Inr gatewayClass, w') \<Rightarrow> (Inr (Some gatewayClass), w'))"

definition emptyGatewayClassConfig :: GatewayClassConfig where
  "emptyGatewayClassConfig =
     \<lparr>ObjectMeta.Name = [], Namespace = [], ObjectMeta.UID = [], Labels = None,
      Annotations = None, OwnerReferences = [], GatewayClassConfig.Spec = []\<rparr>"

definition getGatewayClassConfigForGatewayClass ::
  "Client \<Rightarrow> GatewayClass option \<Rightarrow> World \<Rightarrow> (Error + GatewayClassConfig option) \<times> World" where
  "getGatewayClassConfigForGatewayClass c gatewayClass w =
     (case gatewayClass of
        None \<Rightarrow> (Inr None, w)
      | Some gc \<Rightarrow>
          (case ParametersRef (GatewayClass.Spec gc) of
             None \<Rightarrow> (Inr (Some emptyGatewayClassConfig), w)
           | Some ref \<Rightarrow>
               if Group ref \<noteq> MeshGroup \<or> ParametersReference.Kind ref \<noteq> ''GatewayClassConfig''
               then (Inr None, w)
               else
                 (case GetGatewayClassConfig c (ParametersReference.Name ref) w of
                    (Inl err, w') \<Rightarrow>
                      (case IgnoreNotFound err of
                         Some e \<Rightarrow> (Inl e, w')
                       | None \<Rightarrow> (Inr None, w'))
                  | (Inr config, w') \<Rightarrow> (Inr (Some config), w'))))"

definition getGatewayClassConfigForGateway ::
  "Client \<Rightarrow> MeshGateway \<Rightarrow> World \<Rightarrow> (Error + GatewayClassConfig option) \<times> World" where
  "getGatewayClassConfigForGateway c gateway w =
     (case getGatewayClassForGateway c gateway w of
        (Inl err, w') \<Rightarrow> (Inl err, w')
      | (Inr gatewayClass, w') \<Rightarrow>
          (case getGatewayClassConfigForGatewayClass c gatewayClass w' of
             (Inl err, w'') \<Rightarrow> (Inl err, w'')
           | (Inr gatewayClassConfig, w'') \<Rightarrow> (Inr gatewayClassConfig, w'')))"

section \<open>The pipeline\<close>

text \<open>
  The builder of package \<^verbatim>\<open>gateways\<close> is a collaborator outside the source. The model
  takes what \<^verbatim>\<open>gateways.NewMeshGatewayBuilder(resource, r.GatewayConfig, gcc)\<close> returns as a
  record of the builder's results: the four payloads that cannot fail, the Deployment
  payload or its build error, and the Deployment merge function.
\<close>

record Builder =
  ServiceAccount :: ServiceAccount
  Role :: Role
  RoleBinding :: RoleBinding
  Service :: Service
  Deployment :: "Error + Deployment"
  MergeDeployments :: "GatewayClassConfig option \<Rightarrow> Deployment option \<Rightarrow> Deployment \<Rightarrow> Deployment"

record 'cfg MeshGatewayController =
  Client :: Client
  GatewayConfig :: 'cfg

type_synonym 'cfg NewMeshGatewayBuilder =
  "MeshGateway \<Rightarrow> 'cfg \<Rightarrow> GatewayClassConfig option \<Rightarrow> Builder"

text \<open>The closure \<^verbatim>\<open>upsertOp\<close> of \<^verbatim>\<open>onCreateUpdate\<close>.\<close>

definition upsertOp :: "Client \<Rightarrow> ownedObjectOp" where
  "upsertOp c existingObject object w = CreateOrUpdate c object w"

text \<open>
  The type assertions \<^verbatim>\<open>existingObject.(*corev1.Service)\<close> and
  \<^verbatim>\<open>existingObject.(*appsv1.Deployment)\<close>: the pointer and the \<open>ok\<close> flag. On a \<^verbatim>\<open>nil\<close>
  interface or on another type the pointer is \<^verbatim>\<open>nil\<close> and \<open>ok\<close> is false.
\<close>

fun asService :: "Object option \<Rightarrow> Service option \<times> bool" where
  "asService (Some (ServiceObject s)) = (Some s, True)"
| "asService _ = (None, False)"

fun asDeployment :: "Object option \<Rightarrow> Deployment option \<times> bool" where
  "asDeployment (Some (DeploymentObject d)) = (Some d, True)"
| "asDeployment _ = (None, False)"

text \<open>
  The closure \<^verbatim>\<open>mergeServiceOp\<close>. A panic of \<open>mergeService\<close> would unwind through
  the closure; the model reports it as the outcome \<open>Panic\<close>.
\<close>

definition mergeServiceOp :: "Client \<Rightarrow> ownedObjectOp" where
  "mergeServiceOp c existingObject object w =
     (case asService existingObject of
        (existingService, ok) \<Rightarrow>
          if \<not> ok \<and> existingService \<noteq> None
          then (Some (Plain ''unable to infer existing service type''), w)
          else
            (case asService (Some object) of
               (Some builtService, True) \<Rightarrow>
                 (case mergeService existingService (Some builtService) of
                    Inl p \<Rightarrow> (Some (Panic p), w)
                  | Inr None \<Rightarrow> (Some (Panic NilPointerDereference), w)
                  | Inr (Some mergedService) \<Rightarrow>
                      CreateOrUpdate c (ServiceObject mergedService) w)
             | _ \<Rightarrow> (Some (Plain ''unable to infer built service type''), w)))"

text \<open>The closure \<^verbatim>\<open>mergeDeploymentOp\<close>, which captures the builder and \<open>gcc\<close>.\<close>

definition mergeDeploymentOp ::
  "Client \<Rightarrow> Builder \<Rightarrow> GatewayClassConfig option \<Rightarrow> ownedObjectOp" where
  "mergeDeploymentOp c builder gcc existingObject object w =
     (case asDeployment existingObject of
        (existingDeployment, ok) \<Rightarrow>
          if \<not> ok \<and> existingDeployment \<noteq> None
          then (Some (Plain ''unable to infer existing deployment type''), w)
          else
            (case asDeployment (Some object) of
               (Some builtDeployment, True) \<Rightarrow>
                 CreateOrUpdate c
                   (DeploymentObject (MergeDeployments builder gcc existingDeployment builtDeployment)) w
             | _ \<Rightarrow> (Some (Plain ''unable to infer built deployment type''), w)))"

text \<open>\<^verbatim>\<open>onCreateUpdate\<close>: the five upserts in the order of the source.\<close>

definition onCreateUpdate ::
  "'cfg NewMeshGatewayBuilder \<Rightarrow> 'cfg MeshGatewayController \<Rightarrow> MeshGateway \<Rightarrow> World
     \<Rightarrow> Error option \<times> World" where
  "onCreateUpdate newBuilder r resource w =
     (case getGatewayClassConfigForGateway (Client r) resource w of
        (Inl err, w0) \<Rightarrow> (Some err, w0)
      | (Inr gcc, w0) \<Rightarrow>
     let builder = newBuilder resource (GatewayConfig r) gcc in
     (case opIfNewOrOwned (Client r) resource ServiceAccountKind
             (ServiceAccountObject (ServiceAccount builder)) (upsertOp (Client r)) w0 of
        (Some err, w1) \<Rightarrow> (Some (Errorf ''unable to create service account'' err), w1)
      | (None, w1) \<Rightarrow>
     (case opIfNewOrOwned (Client r) resource RoleKind
             (RoleObject (Role builder)) (upsertOp (Client r)) w1 of
        (Some err, w2) \<Rightarrow> (Some (Errorf ''unable to create role'' err), w2)
      | (None, w2) \<Rightarrow>
     (case opIfNewOrOwned (Client r) resource RoleBindingKind
             (RoleBindingObject (RoleBinding builder)) (upsertOp (Client r)) w2 of
        (Some err, w3) \<Rightarrow> (Some (Errorf ''unable to create role binding'' err), w3)
      | (None, w3) \<Rightarrow>
     (case opIfNewOrOwned (Client r) resource ServiceKind
             (ServiceObject (Service builder)) (mergeServiceOp (Client r)) w3 of
        (Some err, w4) \<Rightarrow> (Some (Errorf ''unable to create service'' err), w4)
      | (None, w4) \<Rightarrow>
     (case Deployment builder of
        Inl err \<Rightarrow> (Some (Errorf ''unable to build deployment'' err), w4)
      | Inr builtDeployment \<Rightarrow>
     (case opIfNewOrOwned (Client r) resource DeploymentKind
             (DeploymentObject builtDeployment) (mergeDeploymentOp (Client r) builder gcc) w4 of
        (Some err, w5) \<Rightarrow> (Some (Errorf ''unable to create deployment'' err), w5)
      | (None, w5) \<Rightarrow> (None, w5))))))))"

section \<open>Observations\<close>

text \<open>
  The ownership test in the words of the specification: the owner-reference list of
  the object contains an entry with the parent's UID and the parent's name.
\<close>

definition ownedBy :: "MeshGateway \<Rightarrow> Object \<Rightarrow> bool" where
  "ownedBy gateway obj =
     (\<exists>ref \<in> set (GetOwnerReferences obj).
        OwnerReference.UID ref = ObjectMeta.UID gateway \<and>
        OwnerReference.Name ref = ObjectMeta.Name gateway)"

text \<open>The kind a client call is about, and the place of each kind in the fixed order.\<close>

fun callKind :: "Call \<Rightarrow> ResourceKind" where
  "callKind (GetCall kind key) = kind"
| "callKind (CreateOrUpdateCall obj) = kindOf obj"

fun rank :: "ResourceKind \<Rightarrow> nat" where
  "rank GatewayClassKind = 0"
| "rank GatewayClassConfigKind = 1"
| "rank ServiceAccountKind = 2"
| "rank RoleKind = 3"
| "rank RoleBindingKind = 4"
| "rank ServiceKind = 5"
| "rank DeploymentKind = 6"

text \<open>The message with which \<^verbatim>\<open>onCreateUpdate\<close> wraps the error of each upsert.\<close>

fun stepMessage :: "ResourceKind \<Rightarrow> string" where
  "stepMessage ServiceAccountKind = ''unable to create service account''"
| "stepMessage RoleKind = ''unable to create role''"
| "stepMessage RoleBindingKind = ''unable to create role binding''"
| "stepMessage ServiceKind = ''unable to create service''"
| "stepMessage DeploymentKind = ''unable to create deployment''"
| "stepMessage _ = []"

text \<open>
  The messages under which \<^verbatim>\<open>onCreateUpdate\<close> reports the failure of the step for a
  kind: the message of its upsert and, for the Deployment, the message of its build.
\<close>

definition buildMessage :: string where
  "buildMessage = ''unable to build deployment''"

definition failureMessage :: "ResourceKind \<Rightarrow> string \<Rightarrow> bool" where
  "failureMessage K msg =
     (msg = stepMessage K \<or> (K = DeploymentKind \<and> msg = buildMessage))"

text \<open>The five kinds the pipeline writes.\<close>

definition isChild :: "ResourceKind \<Rightarrow> bool" where
  "isChild kind =
     (kind = ServiceAccountKind \<or> kind = RoleKind \<or> kind = RoleBindingKind \<or>
      kind = ServiceKind \<or> kind = DeploymentKind)"

text \<open>The calls made on the client between two worlds of one run.\<close>

definition newCalls :: "World \<Rightarrow> World \<Rightarrow> Call list" where
  "newCalls w w' = drop (length (calls w)) (calls w')"

text \<open>
  Between two worlds of one run: kind \<open>K\<close> was attempted when the log holds a call about
  it; it is committed when the log holds a \<^verbatim>\<open>CreateOrUpdate\<close> of an object of kind \<open>K\<close>
  and the store holds that object at its key.
\<close>

definition attempted :: "ResourceKind \<Rightarrow> World \<Rightarrow> World \<Rightarrow> bool" where
  "attempted K w w' = (\<exists>c \<in> set (newCalls w w'). callKind c = K)"

definition committed :: "ResourceKind \<Rightarrow> World \<Rightarrow> World \<Rightarrow> bool" where
  "committed K w w' =
     (\<exists>c \<in> set (newCalls w w').
        case c of
          CreateOrUpdateCall m \<Rightarrow> kindOf m = K \<and> objects w' (K, keyOf m) = Some m
        | GetCall kind key \<Rightarrow> False)"

section \<open>The upsert as a decision on the stored object\<close>

text \<open>
  Each of the three closures of \<^verbatim>\<open>onCreateUpdate\<close> computes a final payload from the
  observed object and the stamped payload, and hands it to \<^verbatim>\<open>CreateOrUpdate\<close>
  (specification 4.3, steps 5 and 6). The definitions of this section restate the
  closures and the guard in that form; the lemmas \<open>upsertOp_writeVia\<close>,
  \<open>mergeServiceOp_writeVia\<close>, \<open>mergeDeploymentOp_writeVia\<close> and \<open>opIfNewOrOwned_writeVia\<close>
  prove that the code of the previous sections computes exactly this.
\<close>

type_synonym payloadFn = "Object option \<Rightarrow> Object \<Rightarrow> Error + Object"

definition writeVia :: "Client \<Rightarrow> payloadFn \<Rightarrow> ownedObjectOp" where
  "writeVia c f existingObject object w =
     (case f existingObject object of
        Inl err \<Rightarrow> (Some err, w)
      | Inr final \<Rightarrow> CreateOrUpdate c final w)"

definition replacePayload :: payloadFn where
  "replacePayload existingObject object = Inr object"

definition servicePayload :: payloadFn where
  "servicePayload existingObject object =
     (case object of
        ServiceObject builtService \<Rightarrow>
          (case mergeService (fst (asService existingObject)) (Some builtService) of
             Inl p \<Rightarrow> Inl (Panic p)
           | Inr None \<Rightarrow> Inl (Panic NilPointerDereference)
           | Inr (Some mergedService) \<Rightarrow> Inr (ServiceObject mergedService))
      | _ \<Rightarrow> Inl (Plain ''unable to infer built service type''))"

definition deploymentPayload :: "Builder \<Rightarrow> GatewayClassConfig option \<Rightarrow> payloadFn" where
  "deploymentPayload builder gcc existingObject object =
     (case object of
        DeploymentObject builtDeployment \<Rightarrow>
          Inr (DeploymentObject
                 (MergeDeployments builder gcc (fst (asDeployment existingObject)) builtDeployment))
      | _ \<Rightarrow> Inl (Plain ''unable to infer built deployment type''))"

text \<open>
  The outcome of the lookup and of the ownership guard (specification 4.1 and 4.3,
  steps 3 and 4), given what the store holds at the target key.
\<close>

definition observe ::
  "Client \<Rightarrow> MeshGateway \<Rightarrow> ResourceKind \<Rightarrow> ObjectKey \<Rightarrow> Object option \<Rightarrow> Error + Object option" where
  "observe c gateway kind key stored =
     (case getError c (kind, key) of
        Some err \<Rightarrow> if IsNotFound err then Inr None else Inl err
      | None \<Rightarrow>
          (case stored of
             None \<Rightarrow> Inr None
           | Some existing \<Rightarrow>
               if ownedBy gateway existing then Inr (Some existing) else Inl errResourceNotOwned))"


text \<open>
  The pipeline in the words of specification 4.4: a list of steps, one per kind, run in
  order until the first error. \<open>onCreateUpdate_runSteps\<close> proves that \<^verbatim>\<open>onCreateUpdate\<close>
  is this list of steps after the class configuration has been resolved.
\<close>

type_synonym step = "World \<Rightarrow> Error option \<times> World"

fun runSteps :: "(ResourceKind \<times> step) list \<Rightarrow> step" where
  "runSteps [] w = (None, w)"
| "runSteps ((kind, s) # rest) w =
     (case s w of
        (Some err, w') \<Rightarrow> (Some err, w')
      | (None, w') \<Rightarrow> runSteps rest w')"

definition wrapStep :: "string \<Rightarrow> step \<Rightarrow> step" where
  "wrapStep msg s w =
     (case s w of
        (Some err, w') \<Rightarrow> (Some (Errorf msg err), w')
      | (None, w') \<Rightarrow> (None, w'))"

definition deploymentStep ::
  "Client \<Rightarrow> MeshGateway \<Rightarrow> Builder \<Rightarrow> GatewayClassConfig option \<Rightarrow> step" where
  "deploymentStep c gateway builder gcc w =
     (case Deployment builder of
        Inl err \<Rightarrow> (Some (Errorf buildMessage err), w)
      | Inr builtDeployment \<Rightarrow>
          wrapStep (stepMessage DeploymentKind)
            (opIfNewOrOwned c gateway DeploymentKind (DeploymentObject builtDeployment)
               (mergeDeploymentOp c builder gcc)) w)"

definition pipelineSteps ::
  "Client \<Rightarrow> MeshGateway \<Rightarrow> Builder \<Rightarrow> GatewayClassConfig option \<Rightarrow> (ResourceKind \<times> step) list" where
  "pipelineSteps c gateway builder gcc =
     [(ServiceAccountKind, wrapStep (stepMessage ServiceAccountKind)
         (opIfNewOrOwned c gateway ServiceAccountKind
            (ServiceAccountObject (ServiceAccount builder)) (upsertOp c))),
      (RoleKind, wrapStep (stepMessage RoleKind)
         (opIfNewOrOwned c gateway RoleKind (RoleObject (Role builder)) (upsertOp c))),
      (RoleBindingKind, wrapStep (stepMessage RoleBindingKind)
         (opIfNewOrOwned c gateway RoleBindingKind
            (RoleBindingObject (RoleBinding builder)) (upsertOp c))),
      (ServiceKind, wrapStep (stepMessage ServiceKind)
         (opIfNewOrOwned c gateway ServiceKind
            (ServiceObject (Service builder)) (mergeServiceOp c))),
      (DeploymentKind, deploymentStep c gateway builder gcc)]"

text \<open>
  What the proofs below establish of every step of the pipeline that handles kind \<open>K\<close>:
  its calls extend the log and are all about \<open>K\<close>, each object it hands to
  \<^verbatim>\<open>CreateOrUpdate\<close> satisfies \<open>P\<close>, the other kinds and the class objects stay as they
  were, a step that succeeds has written an object of kind \<open>K\<close>, and a step that fails
  returns an error wrapped in a failure message of \<open>K\<close>.
\<close>

definition stepLog :: "(Object \<Rightarrow> bool) \<Rightarrow> ResourceKind \<Rightarrow> step \<Rightarrow> bool" where
  "stepLog P K s =
     (\<forall>w e w'. s w = (e, w') \<longrightarrow>
        calls w' = calls w @ newCalls w w' \<and>
        (\<forall>c \<in> set (newCalls w w'). callKind c = K) \<and>
        (\<forall>m. CreateOrUpdateCall m \<in> set (newCalls w w') \<longrightarrow> P m) \<and>
        (\<forall>k key. k \<noteq> K \<longrightarrow> objects w' (k, key) = objects w (k, key)) \<and>
        gatewayClasses w' = gatewayClasses w \<and>
        gatewayClassConfigs w' = gatewayClassConfigs w \<and>
        (e = None \<longrightarrow> committed K w w') \<and>
        (\<forall>err. e = Some err \<longrightarrow>
           (\<exists>msg cause. err = Wrapped msg cause \<and> failureMessage K msg)))"

text \<open>
  What follows for a run of the steps of the kinds \<open>Ks\<close> from \<open>w\<close> to \<open>w'\<close> with
  result \<open>e\<close>.
\<close>

definition runLog ::
  "(Object \<Rightarrow> bool) \<Rightarrow> ResourceKind set \<Rightarrow> World \<Rightarrow> Error option \<Rightarrow> World \<Rightarrow> bool" where
  "runLog P Ks w e w' =
     (calls w' = calls w @ newCalls w w' \<and>
      sorted (map (rank \<circ> callKind) (newCalls w w')) \<and>
      (\<forall>c \<in> set (newCalls w w'). callKind c \<in> Ks) \<and>
      (\<forall>m. CreateOrUpdateCall m \<in> set (newCalls w w') \<longrightarrow> P m) \<and>
      (\<forall>k key. k \<notin> Ks \<longrightarrow> objects w' (k, key) = objects w (k, key)) \<and>
      gatewayClasses w' = gatewayClasses w \<and>
      gatewayClassConfigs w' = gatewayClassConfigs w \<and>
      (\<forall>K \<in> Ks. attempted K w w' \<longrightarrow> (\<forall>K' \<in> Ks. rank K' < rank K \<longrightarrow> committed K' w w')) \<and>
      (\<forall>err. e = Some err \<longrightarrow>
         (\<exists>K \<in> Ks. \<exists>msg cause. err = Wrapped msg cause \<and> failureMessage K msg)) \<and>
      (\<forall>K cause. isChild K \<and> e = Some (Wrapped (stepMessage K) cause) \<longrightarrow>
         (\<forall>c \<in> set (newCalls w w'). rank (callKind c) \<le> rank K) \<and>
         (\<forall>k key. rank K < rank k \<longrightarrow> objects w' (k, key) = objects w (k, key))) \<and>
      (e = None \<longrightarrow> (\<forall>K \<in> Ks. committed K w w')))"


section \<open>Example objects\<close>

text \<open>Concrete objects on which the theorems below are instantiated.\<close>

definition exampleDesiredService :: Service where
  "exampleDesiredService =
     \<lparr>ObjectMeta.Name = ''mesh-gateway'', Namespace = ''consul'', ObjectMeta.UID = [],
      Labels = None, Annotations = Some Map.empty, OwnerReferences = [],
      Service.Spec = \<lparr>Ports = [\<lparr>ServicePort.Name = ''wan'', Protocol = ''TCP'', Port = 8443,
                                  TargetPort = 8443, NodePort = 0\<rparr>],
                      Selector = None, Type = ''LoadBalancer''\<rparr>\<rparr>"

definition exampleNormalizedService :: Service where
  "exampleNormalizedService =
     exampleDesiredService\<lparr>Annotations := None,
       Service.Spec := \<lparr>Ports = [\<lparr>ServicePort.Name = ''wan'', Protocol = ''TCP'', Port = 8443,
                                  TargetPort = 8443, NodePort = 30443\<rparr>],
                        Selector = None, Type = ''ClusterIP''\<rparr>\<rparr>"

definition exampleDriftedService :: Service where
  "exampleDriftedService =
     exampleDesiredService\<lparr>Annotations := Some [''foo'' \<mapsto> ''bar''],
       Service.Spec := \<lparr>Ports = [\<lparr>ServicePort.Name = ''wan'', Protocol = ''TCP'', Port = 443,
                                  TargetPort = 8443, NodePort = 30443\<rparr>],
                        Selector = None, Type = ''ClusterIP''\<rparr>\<rparr>"

definition exampleGateway :: MeshGateway where
  "exampleGateway =
     \<lparr>ObjectMeta.Name = ''mesh-gateway'', Namespace = ''consul'', ObjectMeta.UID = ''u1'',
      Labels = None, Annotations = None, OwnerReferences = [],
      MeshGateway.Spec = \<lparr>GatewayClassName = ''mesh''\<rparr>\<rparr>"

definition exampleClient :: Client where
  "exampleClient = \<lparr>getError = (\<lambda>_. None), writeError = (\<lambda>_. None)\<rparr>"

definition emptyWorld :: World where
  "emptyWorld =
     \<lparr>objects = (\<lambda>_. None), gatewayClasses = (\<lambda>_. None),
      gatewayClassConfigs = (\<lambda>_. None), calls = []\<rparr>"

definition exampleServiceAccount :: ServiceAccount where
  "exampleServiceAccount =
     \<lparr>ObjectMeta.Name = ''mesh-gateway'', Namespace = ''consul'', ObjectMeta.UID = [],
      Labels = None, Annotations = None, OwnerReferences = [], Secrets = []\<rparr>"

definition exampleRole :: Role where
  "exampleRole =
     \<lparr>ObjectMeta.Name = ''mesh-gateway'', Namespace = ''consul'', ObjectMeta.UID = [],
      Labels = None, Annotations = None, OwnerReferences = [], Rules = []\<rparr>"

definition exampleRoleBinding :: RoleBinding where
  "exampleRoleBinding =
     \<lparr>ObjectMeta.Name = ''mesh-gateway'', Namespace = ''consul'', ObjectMeta.UID = [],
      Labels = None, Annotations = None, OwnerReferences = [],
      Subjects = [''mesh-gateway''], RoleRef = ''mesh-gateway''\<rparr>"

definition exampleDeployment :: Deployment where
  "exampleDeployment =
     \<lparr>ObjectMeta.Name = ''mesh-gateway'', Namespace = ''consul'', ObjectMeta.UID = [],
      Labels = None, Annotations = None, OwnerReferences = [],
      Deployment.Spec = \<lparr>Replicas = Some 1, Template = ''consul-dataplane''\<rparr>\<rparr>"

definition exampleMergeDeployments ::
  "GatewayClassConfig option \<Rightarrow> Deployment option \<Rightarrow> Deployment \<Rightarrow> Deployment" where
  "exampleMergeDeployments gcc existing d =
     (case existing of
        None \<Rightarrow> d
      | Some old \<Rightarrow>
          d\<lparr>Deployment.Spec := (Deployment.Spec d)\<lparr>Replicas := Replicas (Deployment.Spec old)\<rparr>\<rparr>)"

definition exampleBuilder :: Builder where
  "exampleBuilder =
     \<lparr>ServiceAccount = exampleServiceAccount, Role = exampleRole,
      RoleBinding = exampleRoleBinding, Service = exampleDesiredService,
      Deployment = Inr exampleDeployment, MergeDeployments = exampleMergeDeployments\<rparr>"

definition exampleNewBuilder :: "unit NewMeshGatewayBuilder" where
  "exampleNewBuilder resource config gcc = exampleBuilder"

definition exampleController :: "unit MeshGatewayController" where
  "exampleController = \<lparr>Client = exampleClient, GatewayConfig = ()\<rparr>"

definition exampleKey :: ObjectKey where
  "exampleKey = (''consul'', ''mesh-gateway'')"

definition manualWorld :: World where
  "manualWorld =
     emptyWorld\<lparr>objects := (objects emptyWorld)
       ((ServiceKind, exampleKey) := Some (ServiceObject exampleDriftedService))\<rparr>"

definition afterManual :: "Error option \<times> World" where
  "afterManual = onCreateUpdate exampleNewBuilder exampleController exampleGateway manualWorld"

definition exampleStampedService :: Service where
  "exampleStampedService =
     exampleDesiredService\<lparr>OwnerReferences := [controllerRef exampleGateway]\<rparr>"

definition exampleMergedService :: Service where
  "exampleMergedService =
     exampleStampedService\<lparr>Annotations := Annotations exampleDriftedService,
       Spec := (Spec exampleStampedService)\<lparr>Ports := Ports (Spec exampleDriftedService)\<rparr>\<rparr>"

definition driftWorld :: World where
  "driftWorld =
     emptyWorld\<lparr>objects := (objects emptyWorld)
       ((ServiceKind, exampleKey) :=
          Some (ServiceObject
                  (exampleDriftedService\<lparr>OwnerReferences := [controllerRef exampleGateway]\<rparr>)))\<rparr>"



definition failingNewBuilder :: "unit NewMeshGatewayBuilder" where
  "failingNewBuilder resource config gcc =
     exampleBuilder\<lparr>Deployment := Inl (Plain ''invalid class configuration'')\<rparr>"

definition afterBuildFailure :: "Error option \<times> World" where
  "afterBuildFailure =
     onCreateUpdate failingNewBuilder exampleController exampleGateway emptyWorld"

definition exampleGatewayClass :: GatewayClass where
  "exampleGatewayClass =
     \<lparr>ObjectMeta.Name = ''mesh'', Namespace = [], ObjectMeta.UID = [], Labels = None,
      Annotations = None, OwnerReferences = [],
      GatewayClass.Spec = \<lparr>ParametersRef =
        Some \<lparr>Group = ''v1'', ParametersReference.Kind = ''ConfigMap'',
              ParametersReference.Name = ''mesh-config''\<rparr>\<rparr>\<rparr>"

definition classWorld :: World where
  "classWorld = emptyWorld\<lparr>gatewayClasses := (gatewayClasses emptyWorld)(''mesh'' := Some exampleGatewayClass)\<rparr>"

definition timeoutController :: "unit MeshGatewayController" where
  "timeoutController =
     \<lparr>Client = \<lparr>getError = (\<lambda>_. None)((GatewayClassKind, ([], ''mesh'')) := Some (ApiError ''timeout'')),
                 writeError = (\<lambda>_. None)\<rparr>,
      GatewayConfig = ()\<rparr>"

section \<open>Properties of the Service merge\<close>

lemma portsLoop_eq:
  "i + length as = length bs \<Longrightarrow>
   portsLoop i as bs = Inr (map portKey as = map portKey (drop i bs))"
proof (induction as arbitrary: i)
  case Nil
  then show ?case by simp
next
  case (Cons p ps)
  then have lt: "i < length bs" by simp
  then have d: "drop i bs = bs ! i # drop (Suc i) bs"
    by (simp add: Cons_nth_drop_Suc)
  from Cons.prems have "Suc i + length ps = length bs" by simp
  then have ih: "portsLoop (Suc i) ps bs = Inr (map portKey ps = map portKey (drop (Suc i) bs))"
    by (rule Cons.IH)
  show ?case
  proof (cases "portKey p = portKey (bs ! i)")
    case True
    then have "Port p = Port (bs ! i)" "Protocol p = Protocol (bs ! i)"
      by (simp_all add: portKey_def)
    with lt ih True show ?thesis by (simp add: d)
  next
    case False
    then have "Port p \<noteq> Port (bs ! i) \<or> Protocol p \<noteq> Protocol (bs ! i)"
      by (simp add: portKey_def)
    with lt False show ?thesis by (simp add: d)
  qed
qed

lemma areServicesEqual_Some:
  "areServicesEqual (Some a) (Some b) =
     Inr (mapping_of (Annotations a) = mapping_of (Annotations b) \<and>
          map portKey (Ports (Spec a)) = map portKey (Ports (Spec b)))"
proof (cases "length (Ports (Spec b)) = length (Ports (Spec a))")
  case True
  then have "portsLoop 0 (Ports (Spec a)) (Ports (Spec b)) =
      Inr (map portKey (Ports (Spec a)) = map portKey (drop 0 (Ports (Spec b))))"
    by (intro portsLoop_eq) simp
  with True show ?thesis
    by (simp add: areServicesEqual_def SemanticDeepEqual_def)
next
  case False
  then have "map portKey (Ports (Spec a)) \<noteq> map portKey (Ports (Spec b))"
    by (metis length_map)
  with False show ?thesis
    by (simp add: areServicesEqual_def SemanticDeepEqual_def)
qed

lemma areServicesEqual_nil:
  "areServicesEqual None b = Inr True" "areServicesEqual a None = Inr True"
  by (simp_all add: areServicesEqual_def)

lemma mergeService_nil:
  "mergeService None to = Inr to" "mergeService from None = Inr None"
  by (simp_all add: mergeService_def areServicesEqual_nil)

lemma mergeService_Some:
  "mergeService (Some f) (Some t) =
     Inr (Some (if mapping_of (Annotations f) = mapping_of (Annotations t) \<and>
                   map portKey (Ports (Spec f)) = map portKey (Ports (Spec t))
                then t
                else t\<lparr>Annotations := Annotations f,
                       Spec := (Spec t)\<lparr>Ports := Ports (Spec f)\<rparr>\<rparr>))"
  by (simp add: mergeService_def areServicesEqual_Some)

section \<open>Properties of the upsert and of the pipeline\<close>

lemma ownedLoop_iff: "ownedLoop gateway (GetOwnerReferences obj) = ownedBy gateway obj"
proof -
  have "ownedLoop gateway refs =
        (\<exists>ref \<in> set refs. OwnerReference.UID ref = ObjectMeta.UID gateway \<and>
                          OwnerReference.Name ref = ObjectMeta.Name gateway)" for refs
    by (induction refs) auto
  then show ?thesis by (simp add: ownedBy_def)
qed

lemma upsertOwnerRef_mem: "ref \<in> set (upsertOwnerRef ref rs)"
  by (induction rs) auto

lemma SetOwnerReferences_props:
  "kindOf (SetOwnerReferences rs obj) = kindOf obj"
  "GetName (SetOwnerReferences rs obj) = GetName obj"
  "GetNamespace (SetOwnerReferences rs obj) = GetNamespace obj"
  "GetOwnerReferences (SetOwnerReferences rs obj) = rs"
  by (cases obj; simp)+

lemma SetControllerReference_Inr:
  assumes "SetControllerReference gateway obj = Inr stamped"
  shows "stamped = SetOwnerReferences (upsertOwnerRef (controllerRef gateway) (GetOwnerReferences obj)) obj"
  using assms by (auto simp: SetControllerReference_def split: option.splits if_splits)

lemma stamped_props:
  assumes "SetControllerReference gateway obj = Inr stamped"
  shows "kindOf stamped = kindOf obj" "keyOf stamped = keyOf obj"
    "GetName stamped = GetName obj" "GetNamespace stamped = GetNamespace obj"
    "ownedBy gateway stamped"
proof -
  note st = SetControllerReference_Inr [OF assms]
  show "kindOf stamped = kindOf obj" "keyOf stamped = keyOf obj"
    "GetName stamped = GetName obj" "GetNamespace stamped = GetNamespace obj"
    by (simp_all add: st SetOwnerReferences_props keyOf_def)
  have "controllerRef gateway \<in> set (GetOwnerReferences stamped)"
    by (simp add: st SetOwnerReferences_props upsertOwnerRef_mem)
  moreover have "OwnerReference.UID (controllerRef gateway) = ObjectMeta.UID gateway"
    "OwnerReference.Name (controllerRef gateway) = ObjectMeta.Name gateway"
    by (simp_all add: controllerRef_def)
  ultimately show "ownedBy gateway stamped"
    unfolding ownedBy_def by blast
qed

lemma upsertOp_writeVia: "upsertOp c = writeVia c replacePayload"
  by (intro ext) (simp add: upsertOp_def writeVia_def replacePayload_def)

lemma asService_cases:
  "asService x = (es, ok) \<Longrightarrow> (ok \<longrightarrow> es \<noteq> None) \<and> (\<not> ok \<longrightarrow> es = None)"
  by (cases x rule: asService.cases) auto

lemma asDeployment_cases:
  "asDeployment x = (es, ok) \<Longrightarrow> (ok \<longrightarrow> es \<noteq> None) \<and> (\<not> ok \<longrightarrow> es = None)"
  by (cases x rule: asDeployment.cases) auto

lemma mergeServiceOp_writeVia: "mergeServiceOp c = writeVia c servicePayload"
proof (intro ext)
  fix ex obj w
  obtain es ok where a: "asService ex = (es, ok)" by (cases "asService ex")
  from asService_cases [OF a] have g: "\<not> (\<not> ok \<and> es \<noteq> None)" by auto
  show "mergeServiceOp c ex obj w = writeVia c servicePayload ex obj w"
    using g
    by (cases obj)
       (auto simp: mergeServiceOp_def writeVia_def servicePayload_def a
             split: sum.splits option.splits)
qed

lemma mergeDeploymentOp_writeVia:
  "mergeDeploymentOp c builder gcc = writeVia c (deploymentPayload builder gcc)"
proof (intro ext)
  fix ex obj w
  obtain es ok where a: "asDeployment ex = (es, ok)" by (cases "asDeployment ex")
  from asDeployment_cases [OF a] have g: "\<not> (\<not> ok \<and> es \<noteq> None)" by auto
  show "mergeDeploymentOp c builder gcc ex obj w = writeVia c (deploymentPayload builder gcc) ex obj w"
    using g
    by (cases obj)
       (auto simp: mergeDeploymentOp_def writeVia_def deploymentPayload_def a)
qed

lemma opIfNewOrOwned_writeVia:
  "opIfNewOrOwned c gateway kind writeSource (writeVia c f) w =
     (case SetControllerReference gateway writeSource of
        Inl err \<Rightarrow> (Some err, w)
      | Inr stamped \<Rightarrow>
          (case observe c gateway kind (keyOf stamped) (objects w (kind, keyOf stamped)) of
             Inl err \<Rightarrow> (Some err, logCall (GetCall kind (keyOf stamped)) w)
           | Inr existing \<Rightarrow>
               (case f existing stamped of
                  Inl err \<Rightarrow> (Some err, logCall (GetCall kind (keyOf stamped)) w)
                | Inr final \<Rightarrow>
                    CreateOrUpdate c final (logCall (GetCall kind (keyOf stamped)) w))))"
  by (auto simp: opIfNewOrOwned_def Get_def observe_def writeVia_def keyOf_def ownedLoop_iff
           split: sum.splits option.splits)

lemma onCreateUpdate_runSteps:
  "onCreateUpdate newBuilder r resource w =
     (case getGatewayClassConfigForGateway (Client r) resource w of
        (Inl err, w0) \<Rightarrow> (Some err, w0)
      | (Inr gcc, w0) \<Rightarrow>
          runSteps (pipelineSteps (Client r) resource
                      (newBuilder resource (GatewayConfig r) gcc) gcc) w0)"
  by (simp add: onCreateUpdate_def pipelineSteps_def deploymentStep_def wrapStep_def Let_def
           buildMessage_def
           split: prod.splits sum.splits option.splits)


lemma logCall_simps:
  "calls (logCall c w) = calls w @ [c]"
  "objects (logCall c w) = objects w"
  "gatewayClasses (logCall c w) = gatewayClasses w"
  "gatewayClassConfigs (logCall c w) = gatewayClassConfigs w"
  by (simp_all add: logCall_def)

lemma CreateOrUpdate_cases:
  assumes "CreateOrUpdate c m w = (e, w')"
  obtains (cu_failed) err where "writeError c (kindOf m, keyOf m) = Some err" "e = Some err"
      "w' = logCall (CreateOrUpdateCall m) w"
    | (cu_written) "writeError c (kindOf m, keyOf m) = None" "e = None"
      "w' = logCall (CreateOrUpdateCall m) (w\<lparr>objects := (objects w)((kindOf m, keyOf m) := Some m)\<rparr>)"
  using assms by (auto simp: CreateOrUpdate_def split: option.splits)

lemma step_cases:
  assumes "opIfNewOrOwned c gateway K obj (writeVia c f) w = (e, w')"
  obtains
    (stamp_failed) err where "SetControllerReference gateway obj = Inl err"
      "e = Some err" "w' = w"
  | (guard_failed) st err where "SetControllerReference gateway obj = Inr st"
      "observe c gateway K (keyOf obj) (objects w (K, keyOf obj)) = Inl err"
      "e = Some err" "w' = logCall (GetCall K (keyOf obj)) w"
  | (payload_failed) st ex err where "SetControllerReference gateway obj = Inr st"
      "observe c gateway K (keyOf obj) (objects w (K, keyOf obj)) = Inr ex"
      "f ex st = Inl err" "e = Some err" "w' = logCall (GetCall K (keyOf obj)) w"
  | (write_failed) st ex m err where "SetControllerReference gateway obj = Inr st"
      "observe c gateway K (keyOf obj) (objects w (K, keyOf obj)) = Inr ex"
      "f ex st = Inr m" "writeError c (kindOf m, keyOf m) = Some err" "e = Some err"
      "w' = logCall (CreateOrUpdateCall m) (logCall (GetCall K (keyOf obj)) w)"
  | (written) st ex m where "SetControllerReference gateway obj = Inr st"
      "observe c gateway K (keyOf obj) (objects w (K, keyOf obj)) = Inr ex"
      "f ex st = Inr m" "writeError c (kindOf m, keyOf m) = None" "e = None"
      "w' = logCall (CreateOrUpdateCall m)
              ((logCall (GetCall K (keyOf obj)) w)
                 \<lparr>objects := (objects w)((kindOf m, keyOf m) := Some m)\<rparr>)"
proof (cases "SetControllerReference gateway obj")
  case (Inl err)
  with assms stamp_failed show ?thesis by (simp add: opIfNewOrOwned_writeVia)
next
  case (Inr st)
  note k = stamped_props(2) [OF Inr]
  show ?thesis
  proof (cases "observe c gateway K (keyOf obj) (objects w (K, keyOf obj))")
    case (Inl err)
    with assms Inr k guard_failed show ?thesis by (simp add: opIfNewOrOwned_writeVia)
  next
    case ob: (Inr ex)
    show ?thesis
    proof (cases "f ex st")
      case (Inl err)
      with assms Inr k ob payload_failed show ?thesis by (simp add: opIfNewOrOwned_writeVia)
    next
      case fm: (Inr m)
      from assms Inr k ob fm
      have cu: "CreateOrUpdate c m (logCall (GetCall K (keyOf obj)) w) = (e, w')"
        by (simp add: opIfNewOrOwned_writeVia)
      then show ?thesis
      proof (cases rule: CreateOrUpdate_cases)
        case (cu_failed err)
        with Inr ob fm show ?thesis using write_failed by blast
      next
        case cu_written
        with Inr ob fm show ?thesis using written [of st ex m]
          by (simp add: logCall_simps)
      qed
    qed
  qed
qed



lemma wrapStep_cases:
  assumes "wrapStep msg s w = (e, w')"
  obtains (failed) err where "s w = (Some err, w')" "e = Some (Wrapped msg err)"
    | (succeeded) "s w = (None, w')" "e = None"
  using assms by (auto simp: wrapStep_def Errorf_def split: prod.splits option.splits)

lemma committed_iff:
  "committed K w w' \<longleftrightarrow>
     (\<exists>m. CreateOrUpdateCall m \<in> set (newCalls w w') \<and> kindOf m = K \<and>
          objects w' (K, keyOf m) = Some m)"
  unfolding committed_def
proof
  assume "\<exists>c\<in>set (newCalls w w').
            case c of GetCall kind key \<Rightarrow> False
            | CreateOrUpdateCall m \<Rightarrow> kindOf m = K \<and> objects w' (K, keyOf m) = Some m"
  then obtain c where c: "c \<in> set (newCalls w w')"
    "case c of GetCall kind key \<Rightarrow> False
     | CreateOrUpdateCall m \<Rightarrow> kindOf m = K \<and> objects w' (K, keyOf m) = Some m"
    by blast
  show "\<exists>m. CreateOrUpdateCall m \<in> set (newCalls w w') \<and> kindOf m = K \<and>
          objects w' (K, keyOf m) = Some m"
  proof (cases c)
    case (GetCall kind key)
    with c show ?thesis by simp
  next
    case (CreateOrUpdateCall m)
    with c show ?thesis by auto
  qed
next
  assume "\<exists>m. CreateOrUpdateCall m \<in> set (newCalls w w') \<and> kindOf m = K \<and>
          objects w' (K, keyOf m) = Some m"
  then show "\<exists>c\<in>set (newCalls w w').
            case c of GetCall kind key \<Rightarrow> False
            | CreateOrUpdateCall m \<Rightarrow> kindOf m = K \<and> objects w' (K, keyOf m) = Some m"
    by force
qed

lemma failureMessage_inj:
  "isChild K \<Longrightarrow> isChild K' \<Longrightarrow> failureMessage K' (stepMessage K) \<Longrightarrow> K' = K"
  by (auto simp: isChild_def failureMessage_def buildMessage_def)

lemma stepLog_upsert:
  assumes K: "kindOf obj = K"
    and F1: "\<And>ex st m. f ex st = Inr m \<Longrightarrow> kindOf m = kindOf st"
    and F3: "\<And>ex st m. ownedBy gateway st \<Longrightarrow> f ex st = Inr m \<Longrightarrow> P m"
  shows "stepLog P K (wrapStep (stepMessage K) (opIfNewOrOwned c gateway K obj (writeVia c f)))"
  unfolding stepLog_def
proof (intro allI impI)
  fix w e w'
  assume "wrapStep (stepMessage K) (opIfNewOrOwned c gateway K obj (writeVia c f)) w = (e, w')"
  then obtain e0 where run: "opIfNewOrOwned c gateway K obj (writeVia c f) w = (e0, w')"
    and e: "e = map_option (Wrapped (stepMessage K)) e0"
    by (cases rule: wrapStep_cases) auto
  have tag: "\<forall>err. e = Some err \<longrightarrow>
           (\<exists>msg cause. err = Wrapped msg cause \<and> failureMessage K msg)"
    using e by (auto simp: failureMessage_def)
  from run have "calls w' = calls w @ newCalls w w' \<and>
        (\<forall>c \<in> set (newCalls w w'). callKind c = K) \<and>
        (\<forall>m. CreateOrUpdateCall m \<in> set (newCalls w w') \<longrightarrow> P m) \<and>
        (\<forall>k key. k \<noteq> K \<longrightarrow> objects w' (k, key) = objects w (k, key)) \<and>
        gatewayClasses w' = gatewayClasses w \<and>
        gatewayClassConfigs w' = gatewayClassConfigs w \<and>
        (e0 = None \<longrightarrow> committed K w w')"
  proof (cases rule: step_cases)
    case (stamp_failed err)
    then show ?thesis by (simp add: newCalls_def)
  next
    case (guard_failed st err)
    then show ?thesis by (simp add: newCalls_def logCall_simps)
  next
    case (payload_failed st ex err)
    then show ?thesis by (simp add: newCalls_def logCall_simps)
  next
    case (write_failed st ex m err)
    have "kindOf m = K" using F1 [OF write_failed(3)] stamped_props(1) [OF write_failed(1)] K by simp
    moreover have "P m" using F3 [OF stamped_props(5) [OF write_failed(1)] write_failed(3)] .
    ultimately show ?thesis using write_failed by (simp add: newCalls_def logCall_simps)
  next
    case (written st ex m)
    have "kindOf m = K" using F1 [OF written(3)] stamped_props(1) [OF written(1)] K by simp
    moreover have "P m" using F3 [OF stamped_props(5) [OF written(1)] written(3)] .
    ultimately show ?thesis using written
      by (auto simp: newCalls_def logCall_simps committed_def)
  qed
  with tag e show "calls w' = calls w @ newCalls w w' \<and>
        (\<forall>c \<in> set (newCalls w w'). callKind c = K) \<and>
        (\<forall>m. CreateOrUpdateCall m \<in> set (newCalls w w') \<longrightarrow> P m) \<and>
        (\<forall>k key. k \<noteq> K \<longrightarrow> objects w' (k, key) = objects w (k, key)) \<and>
        gatewayClasses w' = gatewayClasses w \<and>
        gatewayClassConfigs w' = gatewayClassConfigs w \<and>
        (e = None \<longrightarrow> committed K w w') \<and>
        (\<forall>err. e = Some err \<longrightarrow>
           (\<exists>msg cause. err = Wrapped msg cause \<and> failureMessage K msg))"
    by simp
qed




lemma newCalls_append:
  assumes "calls w1 = calls w @ n1" "calls w' = calls w1 @ n2"
  shows "newCalls w w1 = n1" "newCalls w1 w' = n2" "newCalls w w' = n1 @ n2"
  using assms by (simp_all add: newCalls_def)

lemma committed_mono_right:
  assumes "committed K w w1" "calls w1 = calls w @ n1" "calls w' = calls w1 @ n2"
    and "\<And>key. objects w' (K, key) = objects w1 (K, key)"
  shows "committed K w w'"
  using assms unfolding committed_iff by (auto simp: newCalls_append)

lemma committed_mono_left:
  assumes "committed K w1 w'" "calls w1 = calls w @ n1" "calls w' = calls w1 @ n2"
  shows "committed K w w'"
  using assms unfolding committed_iff by (auto simp: newCalls_append)

lemma runLog_Nil: "runLog P {} w None w"
  by (simp add: runLog_def newCalls_def)

lemma sorted_map_const: "\<forall>x \<in> set xs. f x = a \<Longrightarrow> sorted (map f xs)"
  by (induction xs) auto

lemma runLog_failed:
  assumes s: "stepLog P K s" and run: "s w = (Some err, w')" and K: "isChild K"
    and low: "\<forall>K' \<in> Ks. rank K < rank K'"
  shows "runLog P (insert K Ks) w (Some err) w'"
proof -
  from s run have
    c: "calls w' = calls w @ newCalls w w'"
    and k: "\<forall>c \<in> set (newCalls w w'). callKind c = K"
    and p: "\<forall>m. CreateOrUpdateCall m \<in> set (newCalls w w') \<longrightarrow> P m"
    and f: "\<forall>k key. k \<noteq> K \<longrightarrow> objects w' (k, key) = objects w (k, key)"
    and g: "gatewayClasses w' = gatewayClasses w" "gatewayClassConfigs w' = gatewayClassConfigs w"
    and t: "\<exists>msg cause. err = Wrapped msg cause \<and> failureMessage K msg"
    unfolding stepLog_def by blast+
  show ?thesis
    unfolding runLog_def
  proof (intro conjI)
    show "calls w' = calls w @ newCalls w w'" by (rule c)
    show "sorted (map (rank \<circ> callKind) (newCalls w w'))"
      using k by (intro sorted_map_const [where a = "rank K"]) simp
    show "\<forall>c \<in> set (newCalls w w'). callKind c \<in> insert K Ks" using k by simp
    show "\<forall>m. CreateOrUpdateCall m \<in> set (newCalls w w') \<longrightarrow> P m" by (rule p)
    show "\<forall>k key. k \<notin> insert K Ks \<longrightarrow> objects w' (k, key) = objects w (k, key)"
      using f by simp
    show "gatewayClasses w' = gatewayClasses w" by (rule g)
    show "gatewayClassConfigs w' = gatewayClassConfigs w" by (rule g)
    show "\<forall>K1 \<in> insert K Ks. attempted K1 w w' \<longrightarrow>
               (\<forall>K' \<in> insert K Ks. rank K' < rank K1 \<longrightarrow> committed K' w w')"
    proof (intro ballI impI)
      fix K1 K'
      assume "attempted K1 w w'" and K': "K' \<in> insert K Ks" and r: "rank K' < rank K1"
      then have "K1 = K" using k by (auto simp: attempted_def)
      with K' r low have False by auto
      then show "committed K' w w'" ..
    qed
    show "\<forall>err'. Some err = Some err' \<longrightarrow>
         (\<exists>K' \<in> insert K Ks. \<exists>msg cause. err' = Wrapped msg cause \<and> failureMessage K' msg)"
      using t by auto
    show "\<forall>K1 cause. isChild K1 \<and> Some err = Some (Wrapped (stepMessage K1) cause) \<longrightarrow>
         (\<forall>c \<in> set (newCalls w w'). rank (callKind c) \<le> rank K1) \<and>
         (\<forall>k key. rank K1 < rank k \<longrightarrow> objects w' (k, key) = objects w (k, key))"
    proof (intro allI impI)
      fix K1 cause
      assume a: "isChild K1 \<and> Some err = Some (Wrapped (stepMessage K1) cause)"
      with t have "failureMessage K (stepMessage K1)" by auto
      with a K have "K1 = K" by (auto dest: failureMessage_inj)
      with k f show "(\<forall>c \<in> set (newCalls w w'). rank (callKind c) \<le> rank K1) \<and>
           (\<forall>k key. rank K1 < rank k \<longrightarrow> objects w' (k, key) = objects w (k, key))"
        by auto
    qed
    show "Some err = None \<longrightarrow> (\<forall>K \<in> insert K Ks. committed K w w')" by simp
  qed
qed


lemma runLog_succeeded:
  assumes s: "stepLog P K s" and run: "s w = (None, w1)"
    and low: "\<forall>K' \<in> Ks. rank K < rank K'"
    and kids: "\<forall>K' \<in> Ks. isChild K'"
    and rest: "runLog P Ks w1 e w'"
  shows "runLog P (insert K Ks) w e w'"
proof -
  from s run have
    c1: "calls w1 = calls w @ newCalls w w1"
    and k1: "\<forall>c \<in> set (newCalls w w1). callKind c = K"
    and p1: "\<forall>m. CreateOrUpdateCall m \<in> set (newCalls w w1) \<longrightarrow> P m"
    and f1: "\<forall>k key. k \<noteq> K \<longrightarrow> objects w1 (k, key) = objects w (k, key)"
    and g1: "gatewayClasses w1 = gatewayClasses w" "gatewayClassConfigs w1 = gatewayClassConfigs w"
    and d1: "committed K w w1"
    unfolding stepLog_def by blast+
  from rest have
    c2: "calls w' = calls w1 @ newCalls w1 w'"
    and s2: "sorted (map (rank \<circ> callKind) (newCalls w1 w'))"
    and k2: "\<forall>c \<in> set (newCalls w1 w'). callKind c \<in> Ks"
    and p2: "\<forall>m. CreateOrUpdateCall m \<in> set (newCalls w1 w') \<longrightarrow> P m"
    and f2: "\<forall>k key. k \<notin> Ks \<longrightarrow> objects w' (k, key) = objects w1 (k, key)"
    and g2: "gatewayClasses w' = gatewayClasses w1" "gatewayClassConfigs w' = gatewayClassConfigs w1"
    and a2: "\<forall>K1 \<in> Ks. attempted K1 w1 w' \<longrightarrow>
               (\<forall>K' \<in> Ks. rank K' < rank K1 \<longrightarrow> committed K' w1 w')"
    and t2: "\<forall>err. e = Some err \<longrightarrow>
         (\<exists>K \<in> Ks. \<exists>msg cause. err = Wrapped msg cause \<and> failureMessage K msg)"
    and n2: "\<forall>K1 cause. isChild K1 \<and> e = Some (Wrapped (stepMessage K1) cause) \<longrightarrow>
         (\<forall>c \<in> set (newCalls w1 w'). rank (callKind c) \<le> rank K1) \<and>
         (\<forall>k key. rank K1 < rank k \<longrightarrow> objects w' (k, key) = objects w1 (k, key))"
    and d2: "e = None \<longrightarrow> (\<forall>K1 \<in> Ks. committed K1 w1 w')"
    unfolding runLog_def by blast+
  note nc = newCalls_append(3) [OF c1 c2]
  have KnotKs: "K \<notin> Ks" using low by auto
  have "objects w' (K, key) = objects w1 (K, key)" for key
    using f2 KnotKs by blast
  then have dK: "committed K w w'"
    by (rule committed_mono_right [OF d1 c1 c2])
  have dKs: "committed K' w1 w' \<Longrightarrow> committed K' w w'" for K'
    by (rule committed_mono_left [OF _ c1 c2])
  show ?thesis
    unfolding runLog_def
  proof (intro conjI)
    show "calls w' = calls w @ newCalls w w'" using c1 c2 nc by simp
    show "sorted (map (rank \<circ> callKind) (newCalls w w'))"
    proof -
      have "sorted (map (rank \<circ> callKind) (newCalls w w1))"
        using k1 by (intro sorted_map_const [where a = "rank K"]) simp
      moreover have "\<forall>x \<in> set (newCalls w w1). \<forall>y \<in> set (newCalls w1 w').
          rank (callKind x) \<le> rank (callKind y)"
        using k1 k2 low by (metis less_imp_le)
      ultimately show ?thesis using s2 by (simp add: nc sorted_append)
    qed
    show "\<forall>c \<in> set (newCalls w w'). callKind c \<in> insert K Ks"
      using k1 k2 by (auto simp: nc)
    show "\<forall>m. CreateOrUpdateCall m \<in> set (newCalls w w') \<longrightarrow> P m"
      using p1 p2 by (auto simp: nc)
    show "\<forall>k key. k \<notin> insert K Ks \<longrightarrow> objects w' (k, key) = objects w (k, key)"
      using f1 f2 by (simp del: split_paired_All)
    show "gatewayClasses w' = gatewayClasses w" using g1 g2 by simp
    show "gatewayClassConfigs w' = gatewayClassConfigs w" using g1 g2 by simp
    show "\<forall>K1 \<in> insert K Ks. attempted K1 w w' \<longrightarrow>
               (\<forall>K' \<in> insert K Ks. rank K' < rank K1 \<longrightarrow> committed K' w w')"
    proof (intro ballI impI)
      fix K1 K'
      assume K1: "K1 \<in> insert K Ks" and att: "attempted K1 w w'"
        and K': "K' \<in> insert K Ks" and r: "rank K' < rank K1"
      show "committed K' w w'"
      proof (cases "K' = K")
        case True
        with dK show ?thesis by simp
      next
        case False
        with K' have K'in: "K' \<in> Ks" by simp
        with low r have "K1 \<noteq> K" by auto
        with K1 have K1in: "K1 \<in> Ks" by simp
        from att \<open>K1 \<noteq> K\<close> k1 have "attempted K1 w1 w'"
          by (auto simp: attempted_def nc)
        with a2 K1in K'in r have "committed K' w1 w'" by blast
        then show ?thesis by (rule dKs)
      qed
    qed
    show "\<forall>err. e = Some err \<longrightarrow>
         (\<exists>K' \<in> insert K Ks. \<exists>msg cause. err = Wrapped msg cause \<and> failureMessage K' msg)"
      using t2 by blast
    show "\<forall>K1 cause. isChild K1 \<and> e = Some (Wrapped (stepMessage K1) cause) \<longrightarrow>
         (\<forall>c \<in> set (newCalls w w'). rank (callKind c) \<le> rank K1) \<and>
         (\<forall>k key. rank K1 < rank k \<longrightarrow> objects w' (k, key) = objects w (k, key))"
    proof (intro allI impI)
      fix K1 cause
      assume a: "isChild K1 \<and> e = Some (Wrapped (stepMessage K1) cause)"
      with t2 obtain K2 where "K2 \<in> Ks" "failureMessage K2 (stepMessage K1)" by auto
      with a kids have K1in: "K1 \<in> Ks" by (auto dest: failureMessage_inj)
      with low have lt: "rank K < rank K1" by simp
      from a n2 have r2: "\<forall>c \<in> set (newCalls w1 w'). rank (callKind c) \<le> rank K1"
        and o2: "\<forall>k key. rank K1 < rank k \<longrightarrow> objects w' (k, key) = objects w1 (k, key)"
        by blast+
      have "\<forall>c \<in> set (newCalls w w'). rank (callKind c) \<le> rank K1"
        using r2 k1 lt by (auto simp: nc)
      moreover have "\<forall>k key. rank K1 < rank k \<longrightarrow> objects w' (k, key) = objects w (k, key)"
      proof (intro allI impI)
        fix k key
        assume "rank K1 < rank k"
        with lt have "k \<noteq> K" by auto
        with f1 o2 \<open>rank K1 < rank k\<close> show "objects w' (k, key) = objects w (k, key)"
          by (simp del: split_paired_All)
      qed
      ultimately show "(\<forall>c \<in> set (newCalls w w'). rank (callKind c) \<le> rank K1) \<and>
         (\<forall>k key. rank K1 < rank k \<longrightarrow> objects w' (k, key) = objects w (k, key))"
        by simp
    qed
    show "e = None \<longrightarrow> (\<forall>K1 \<in> insert K Ks. committed K1 w w')"
      using d2 dK dKs by auto
  qed
qed

lemma runSteps_log:
  assumes "\<forall>(K, s) \<in> set steps. stepLog P K s \<and> isChild K"
    and "sorted_wrt (\<lambda>a b. rank (fst a) < rank (fst b)) steps"
    and "runSteps steps w = (e, w')"
  shows "runLog P (fst ` set steps) w e w'"
  using assms
proof (induction steps arbitrary: w)
  case Nil
  then show ?case by (simp add: runLog_Nil)
next
  case (Cons a steps)
  obtain K s where a: "a = (K, s)" by (cases a)
  from Cons.prems(1) a have sl: "stepLog P K s" and cK: "isChild K" by simp_all
  from Cons.prems(1) have kids: "\<forall>K' \<in> fst ` set steps. isChild K'" by auto
  from Cons.prems(2) a have low: "\<forall>K' \<in> fst ` set steps. rank K < rank K'" by auto
  obtain e0 w1 where run: "s w = (e0, w1)" by (cases "s w")
  show ?case
  proof (cases e0)
    case None
    with Cons.prems(3) a run have "runSteps steps w1 = (e, w')" by simp
    with Cons.prems have "runLog P (fst ` set steps) w1 e w'"
      by (intro Cons.IH) auto
    with sl run None low kids show ?thesis
      by (simp add: a runLog_succeeded)
  next
    case (Some err)
    with Cons.prems(3) a run have "e = Some err" "w' = w1" by simp_all
    then show ?thesis
      using sl run Some low cK by (simp add: a runLog_failed)
  qed
qed


lemma mergeService_replay:
  assumes "mergeService from (Some t) = Inr (Some m)"
  shows "mergeService (Some m) (Some t) = Inr (Some m)"
proof (cases "from")
  case None
  with assms show ?thesis by (simp add: mergeService_nil mergeService_Some)
next
  case (Some f)
  with assms show ?thesis by (auto simp: mergeService_Some split: if_splits)
qed

lemma mergeService_OwnerReferences:
  assumes "mergeService from (Some t) = Inr (Some m)"
  shows "OwnerReferences m = OwnerReferences t" "ObjectMeta.Name m = ObjectMeta.Name t"
    "Namespace m = Namespace t"
proof -
  have "OwnerReferences m = OwnerReferences t \<and> ObjectMeta.Name m = ObjectMeta.Name t \<and>
        Namespace m = Namespace t"
  proof (cases "from")
    case None
    with assms show ?thesis by (simp add: mergeService_nil)
  next
    case (Some f)
    with assms show ?thesis by (auto simp: mergeService_Some split: if_splits)
  qed
  then show "OwnerReferences m = OwnerReferences t" "ObjectMeta.Name m = ObjectMeta.Name t"
    "Namespace m = Namespace t" by simp_all
qed

lemma servicePayload_Inr:
  assumes "servicePayload ex st = Inr m"
  obtains b ms where "st = ServiceObject b" "m = ServiceObject ms"
    "mergeService (fst (asService ex)) (Some b) = Inr (Some ms)"
  using assms
  by (cases st) (auto simp: servicePayload_def split: sum.splits option.splits)

lemma replacePayload_props:
  "replacePayload ex st = Inr m \<Longrightarrow> kindOf m = kindOf st"
  "replacePayload ex st = Inr m \<Longrightarrow> replacePayload (Some m) st = Inr m"
  "ownedBy gateway st \<Longrightarrow> replacePayload ex st = Inr m \<Longrightarrow> ownedBy gateway m"
  by (simp_all add: replacePayload_def)

lemma servicePayload_props:
  "servicePayload ex st = Inr m \<Longrightarrow> kindOf m = kindOf st"
  "servicePayload ex st = Inr m \<Longrightarrow> servicePayload (Some m) st = Inr m"
  "ownedBy gateway st \<Longrightarrow> servicePayload ex st = Inr m \<Longrightarrow> ownedBy gateway m"
proof -
  show "servicePayload ex st = Inr m \<Longrightarrow> kindOf m = kindOf st"
    by (erule servicePayload_Inr) simp
  show "servicePayload ex st = Inr m \<Longrightarrow> servicePayload (Some m) st = Inr m"
    by (erule servicePayload_Inr) (simp add: servicePayload_def mergeService_replay)
  show "ownedBy gateway st \<Longrightarrow> servicePayload ex st = Inr m \<Longrightarrow> ownedBy gateway m"
    by (erule servicePayload_Inr) (simp add: ownedBy_def mergeService_OwnerReferences)
qed

lemma deploymentPayload_Inr:
  assumes "deploymentPayload builder gcc ex st = Inr m"
  obtains d where "st = DeploymentObject d"
    "m = DeploymentObject (MergeDeployments builder gcc (fst (asDeployment ex)) d)"
  using assms by (cases st) (auto simp: deploymentPayload_def)

lemma deploymentPayload_kind:
  "deploymentPayload builder gcc ex st = Inr m \<Longrightarrow> kindOf m = kindOf st"
  by (erule deploymentPayload_Inr) simp

lemma deploymentPayload_DeploymentKind:
  "deploymentPayload builder gcc ex st = Inr m \<Longrightarrow> kindOf m = DeploymentKind"
  by (erule deploymentPayload_Inr) simp

lemma deploymentPayload_owned:
  assumes "\<And>ex d. OwnerReferences (MergeDeployments builder gcc ex d) = OwnerReferences d"
    and "ownedBy gateway st" "deploymentPayload builder gcc ex st = Inr m"
  shows "ownedBy gateway m"
proof -
  from assms(3) obtain d where "st = DeploymentObject d"
    "m = DeploymentObject (MergeDeployments builder gcc (fst (asDeployment ex)) d)"
    by (rule deploymentPayload_Inr)
  with assms(2) show ?thesis by (simp add: ownedBy_def assms(1))
qed


lemma stepLog_deploymentStep:
  assumes "\<And>ex st m. ownedBy gateway st \<Longrightarrow> deploymentPayload builder gcc ex st = Inr m \<Longrightarrow> P m"
  shows "stepLog P DeploymentKind (deploymentStep c gateway builder gcc)"
proof (cases "Deployment builder")
  case (Inl err)
  then have "deploymentStep c gateway builder gcc = (\<lambda>w. (Some (Wrapped buildMessage err), w))"
    by (intro ext) (simp add: deploymentStep_def Errorf_def)
  then show ?thesis
    by (simp add: stepLog_def newCalls_def failureMessage_def)
next
  case (Inr d)
  then have "deploymentStep c gateway builder gcc =
      wrapStep (stepMessage DeploymentKind)
        (opIfNewOrOwned c gateway DeploymentKind (DeploymentObject d)
           (writeVia c (deploymentPayload builder gcc)))"
    by (intro ext) (simp add: deploymentStep_def mergeDeploymentOp_writeVia)
  moreover have "stepLog P DeploymentKind
      (wrapStep (stepMessage DeploymentKind)
        (opIfNewOrOwned c gateway DeploymentKind (DeploymentObject d)
           (writeVia c (deploymentPayload builder gcc))))"
    using assms by (intro stepLog_upsert) (simp_all add: deploymentPayload_kind)
  ultimately show ?thesis by simp
qed

lemma pipelineSteps_log:
  assumes "\<And>ex st m. ownedBy gateway st \<Longrightarrow> deploymentPayload builder gcc ex st = Inr m \<Longrightarrow> P m"
    and "\<And>m. ownedBy gateway m \<Longrightarrow> P m"
  shows "\<forall>(K, s) \<in> set (pipelineSteps c gateway builder gcc). stepLog P K s \<and> isChild K"
proof -
  have r: "stepLog P (kindOf obj)
      (wrapStep (stepMessage (kindOf obj))
         (opIfNewOrOwned c gateway (kindOf obj) obj (upsertOp c)))" for obj
    unfolding upsertOp_writeVia
    using assms(2) by (intro stepLog_upsert) (simp_all add: replacePayload_def)
  have s: "stepLog P ServiceKind
      (wrapStep (stepMessage ServiceKind)
         (opIfNewOrOwned c gateway ServiceKind (ServiceObject b) (mergeServiceOp c)))" for b
    unfolding mergeServiceOp_writeVia
    using assms(2) by (intro stepLog_upsert) (auto simp: servicePayload_props)
  show ?thesis
    unfolding pipelineSteps_def
    using r [of "ServiceAccountObject (ServiceAccount builder)"]
      r [of "RoleObject (Role builder)"] r [of "RoleBindingObject (RoleBinding builder)"]
      s [of "Service builder"] stepLog_deploymentStep [of gateway builder gcc P c, OF assms(1)]
    by (simp add: isChild_def)
qed

lemma pipelineSteps_sorted:
  "sorted_wrt (\<lambda>a b. rank (fst a) < rank (fst b)) (pipelineSteps c gateway builder gcc)"
  by (simp add: pipelineSteps_def)

lemma pipelineSteps_kinds:
  "fst ` set (pipelineSteps c gateway builder gcc) = {K. isChild K}"
  by (auto simp: pipelineSteps_def isChild_def)


lemma getGatewayClassConfigForGateway_log:
  assumes "getGatewayClassConfigForGateway c gateway w = (res, w0)"
  shows "calls w0 = calls w @ newCalls w w0"
    "sorted (map (rank \<circ> callKind) (newCalls w w0))"
    "\<forall>x \<in> set (newCalls w w0). \<not> isChild (callKind x)"
    "\<forall>m. CreateOrUpdateCall m \<notin> set (newCalls w w0)"
    "objects w0 = objects w" "gatewayClasses w0 = gatewayClasses w"
    "gatewayClassConfigs w0 = gatewayClassConfigs w"
  using assms
  by (auto simp: getGatewayClassConfigForGateway_def getGatewayClassForGateway_def
        getGatewayClassConfigForGatewayClass_def GetGatewayClass_def GetGatewayClassConfig_def
        logCall_def newCalls_def isChild_def
      split: option.splits sum.splits prod.splits if_splits)


lemma onCreateUpdate_cases:
  assumes "onCreateUpdate newBuilder r gateway w = (e, w')"
  obtains (config_failed) err where
      "getGatewayClassConfigForGateway (Client r) gateway w = (Inl err, w')" "e = Some err"
    | (ran) gcc w0 where
      "getGatewayClassConfigForGateway (Client r) gateway w = (Inr gcc, w0)"
      "runSteps (pipelineSteps (Client r) gateway (newBuilder gateway (GatewayConfig r) gcc) gcc) w0
         = (e, w')"
  using assms unfolding onCreateUpdate_runSteps
  by (auto split: prod.splits sum.splits)


lemma onCreateUpdate_log:
  assumes run: "onCreateUpdate newBuilder r gateway w = (e, w')"
  obtains (config_failed) err where
      "getGatewayClassConfigForGateway (Client r) gateway w = (Inl err, w')" "e = Some err"
      "calls w' = calls w @ newCalls w w'"
      "sorted (map (rank \<circ> callKind) (newCalls w w'))"
      "\<forall>x \<in> set (newCalls w w'). \<not> isChild (callKind x)"
      "\<forall>m. CreateOrUpdateCall m \<notin> set (newCalls w w')"
      "objects w' = objects w"
    | (ran) gcc w0 where
      "getGatewayClassConfigForGateway (Client r) gateway w = (Inr gcc, w0)"
      "runSteps (pipelineSteps (Client r) gateway (newBuilder gateway (GatewayConfig r) gcc) gcc) w0
         = (e, w')"
      "calls w0 = calls w @ newCalls w w0"
      "sorted (map (rank \<circ> callKind) (newCalls w w0))"
      "\<forall>x \<in> set (newCalls w w0). \<not> isChild (callKind x)"
      "\<forall>m. CreateOrUpdateCall m \<notin> set (newCalls w w0)"
      "objects w0 = objects w"
      "\<forall>P. (\<forall>m. ownedBy gateway m \<longrightarrow> P m) \<and>
           (\<forall>ex st m. ownedBy gateway st \<and>
              deploymentPayload (newBuilder gateway (GatewayConfig r) gcc) gcc ex st = Inr m \<longrightarrow> P m)
           \<longrightarrow> runLog P {K. isChild K} w0 e w'"
      "newCalls w w' = newCalls w w0 @ newCalls w0 w'"
  using run
proof (cases rule: onCreateUpdate_cases)
  case (config_failed err)
  note l = getGatewayClassConfigForGateway_log [OF config_failed(1)]
  from config_failed l show ?thesis by (intro that(1) [of err]) simp_all
next
  case (ran gcc w0)
  note l = getGatewayClassConfigForGateway_log [OF ran(1)]
  have rl: "runLog P {K. isChild K} w0 e w'"
    if "\<forall>m. ownedBy gateway m \<longrightarrow> P m"
      "\<forall>ex st m. ownedBy gateway st \<and>
         deploymentPayload (newBuilder gateway (GatewayConfig r) gcc) gcc ex st = Inr m \<longrightarrow> P m"
    for P
  proof -
    have "\<forall>(K, s) \<in> set (pipelineSteps (Client r) gateway
           (newBuilder gateway (GatewayConfig r) gcc) gcc). stepLog P K s \<and> isChild K"
    proof (rule pipelineSteps_log)
      show "P m" if "ownedBy gateway st"
        "deploymentPayload (newBuilder gateway (GatewayConfig r) gcc) gcc ex st = Inr m"
        for ex st m
        using that \<open>\<forall>ex st m. ownedBy gateway st \<and>
         deploymentPayload (newBuilder gateway (GatewayConfig r) gcc) gcc ex st = Inr m \<longrightarrow> P m\<close>
        by blast
      show "P m" if "ownedBy gateway m" for m
        using that \<open>\<forall>m. ownedBy gateway m \<longrightarrow> P m\<close> by blast
    qed
    then have "runLog P (fst ` set (pipelineSteps (Client r) gateway
           (newBuilder gateway (GatewayConfig r) gcc) gcc)) w0 e w'"
      using pipelineSteps_sorted ran(2) by (rule runSteps_log)
    then show ?thesis by (simp only: pipelineSteps_kinds)
  qed
  from rl [of "\<lambda>m. True"] have c2: "calls w' = calls w0 @ newCalls w0 w'"
    by (simp add: runLog_def)
  have "newCalls w w' = newCalls w w0 @ newCalls w0 w'"
    by (rule newCalls_append(3) [OF l(1) c2])
  with ran l show ?thesis
  proof (intro that(2) [of gcc w0])
    show "\<forall>P. (\<forall>m. ownedBy gateway m \<longrightarrow> P m) \<and>
           (\<forall>ex st m. ownedBy gateway st \<and>
              deploymentPayload (newBuilder gateway (GatewayConfig r) gcc) gcc ex st = Inr m \<longrightarrow> P m)
           \<longrightarrow> runLog P {K. isChild K} w0 e w'"
      using rl by blast
  qed simp_all
qed

lemma runLogD:
  assumes "runLog P Ks w e w'"
  shows "calls w' = calls w @ newCalls w w'"
    and "sorted (map (rank \<circ> callKind) (newCalls w w'))"
    and "\<forall>c \<in> set (newCalls w w'). callKind c \<in> Ks"
    and "\<forall>m. CreateOrUpdateCall m \<in> set (newCalls w w') \<longrightarrow> P m"
    and "\<forall>k key. k \<notin> Ks \<longrightarrow> objects w' (k, key) = objects w (k, key)"
    and "gatewayClasses w' = gatewayClasses w"
    and "gatewayClassConfigs w' = gatewayClassConfigs w"
    and "\<forall>K \<in> Ks. attempted K w w' \<longrightarrow> (\<forall>K' \<in> Ks. rank K' < rank K \<longrightarrow> committed K' w w')"
    and "\<forall>err. e = Some err \<longrightarrow>
         (\<exists>K \<in> Ks. \<exists>msg cause. err = Wrapped msg cause \<and> failureMessage K msg)"
    and "\<forall>K cause. isChild K \<and> e = Some (Wrapped (stepMessage K) cause) \<longrightarrow>
         (\<forall>c \<in> set (newCalls w w'). rank (callKind c) \<le> rank K) \<and>
         (\<forall>k key. rank K < rank k \<longrightarrow> objects w' (k, key) = objects w (k, key))"
    and "e = None \<longrightarrow> (\<forall>K \<in> Ks. committed K w w')"
  using assms unfolding runLog_def by blast+

lemma onCreateUpdate_writes:
  assumes run: "onCreateUpdate newBuilder r gateway w = (e, w')"
    and P: "\<forall>m. ownedBy gateway m \<longrightarrow> P m"
    and PD: "\<forall>gcc ex st m. ownedBy gateway st \<and>
              deploymentPayload (newBuilder gateway (GatewayConfig r) gcc) gcc ex st = Inr m \<longrightarrow> P m"
  shows "\<forall>m. CreateOrUpdateCall m \<in> set (newCalls w w') \<longrightarrow> P m"
  using run
proof (cases rule: onCreateUpdate_log)
  case (config_failed err)
  then show ?thesis by simp
next
  case (ran gcc w0)
  have "runLog P {K. isChild K} w0 e w'"
    using ran(8) [THEN spec, of P] P PD by simp
  from runLogD(4) [OF this] ran(6) show ?thesis by (simp add: ran(9))
qed

lemma runSteps_append:
  "runSteps (xs @ ys) w =
     (case runSteps xs w of (Some err, w') \<Rightarrow> (Some err, w') | (None, w') \<Rightarrow> runSteps ys w')"
  by (induction xs arbitrary: w) (auto split: prod.splits option.splits)

lemma pipelineSteps_split:
  "pipelineSteps c gateway builder gcc =
     butlast (pipelineSteps c gateway builder gcc) @
     [(DeploymentKind, deploymentStep c gateway builder gcc)]"
  by (simp add: pipelineSteps_def)

lemma butlast_pipelineSteps_kinds:
  "fst ` set (butlast (pipelineSteps c gateway builder gcc)) =
     {K. isChild K \<and> K \<noteq> DeploymentKind}"
  by (auto simp: pipelineSteps_def isChild_def)








section \<open>The example runs\<close>

lemmas example_defs = exampleServiceAccount_def exampleRole_def exampleRoleBinding_def
  exampleDeployment_def exampleMergeDeployments_def exampleBuilder_def exampleNewBuilder_def
  exampleController_def exampleClient_def emptyWorld_def exampleGateway_def
  exampleDesiredService_def exampleDriftedService_def exampleKey_def manualWorld_def
  exampleStampedService_def exampleMergedService_def driftWorld_def failingNewBuilder_def
  exampleGatewayClass_def classWorld_def timeoutController_def

lemmas model_defs = onCreateUpdate_def getGatewayClassConfigForGateway_def
  getGatewayClassForGateway_def getGatewayClassConfigForGatewayClass_def GetGatewayClass_def
  GetGatewayClassConfig_def IgnoreNotFound_def logCall_def opIfNewOrOwned_def
  SetControllerReference_def validateOwner_def GetControllerOf_def controllerRef_def
  referSameObject_def Get_def CreateOrUpdate_def keyOf_def upsertOp_def mergeServiceOp_def
  mergeDeploymentOp_def Errorf_def MeshGroup_def groupOf_def


lemma afterManual_calls:
  "newCalls manualWorld (snd afterManual) =
     [GetCall GatewayClassKind ([], ''mesh''),
      GetCall ServiceAccountKind exampleKey,
      CreateOrUpdateCall (ServiceAccountObject
        (exampleServiceAccount\<lparr>OwnerReferences := [controllerRef exampleGateway]\<rparr>)),
      GetCall RoleKind exampleKey,
      CreateOrUpdateCall (RoleObject
        (exampleRole\<lparr>OwnerReferences := [controllerRef exampleGateway]\<rparr>)),
      GetCall RoleBindingKind exampleKey,
      CreateOrUpdateCall (RoleBindingObject
        (exampleRoleBinding\<lparr>OwnerReferences := [controllerRef exampleGateway]\<rparr>)),
      GetCall ServiceKind exampleKey]"
  by (simp add: afterManual_def model_defs example_defs Let_def newCalls_def)

lemma example_stamp:
  "SetControllerReference exampleGateway (ServiceObject exampleDesiredService) =
     Inr (ServiceObject exampleStampedService)"
  by (simp add: model_defs example_defs)

lemma isChild_simps:
  "isChild ServiceAccountKind" "isChild RoleKind" "isChild RoleBindingKind"
  "isChild ServiceKind" "isChild DeploymentKind"
  "\<not> isChild GatewayClassKind" "\<not> isChild GatewayClassConfigKind"
  by (simp_all add: isChild_def)

lemma afterBuildFailure_fst:
  "fst afterBuildFailure =
     Some (Wrapped ''unable to build deployment'' (Plain ''invalid class configuration''))"
  by (simp add: afterBuildFailure_def model_defs example_defs Let_def mergeService_nil)





section \<open>The claims\<close>

text \<open>
  Claim C1 (ownership invariant). For every kind and every operation \<open>op\<close>, when the
  lookup at the target key does not fail: if the store holds an object at the key whose
  owner references contain no entry with the parent's UID and name, \<open>opIfNewOrOwned\<close>
  returns an error, leaves every stored object as it was and calls the client at most for
  the lookup; the error is \<open>errResourceNotOwned\<close> once the payload has been stamped. If the
  store holds nothing at the key, \<open>op\<close> runs with no existing object (the create path);
  if it holds an owned object, \<open>op\<close> runs with that object (the update path).
\<close>

theorem ownership_guard:
  assumes lookup: "getError c (scanTarget, keyOf writeSource) = None"
  shows
    "(objects w (scanTarget, keyOf writeSource) = Some existing \<and> \<not> ownedBy gateway existing \<longrightarrow>
        fst (opIfNewOrOwned c gateway scanTarget writeSource op w) \<noteq> None \<and>
        objects (snd (opIfNewOrOwned c gateway scanTarget writeSource op w)) = objects w \<and>
        (newCalls w (snd (opIfNewOrOwned c gateway scanTarget writeSource op w)) = [] \<or>
         newCalls w (snd (opIfNewOrOwned c gateway scanTarget writeSource op w)) =
           [GetCall scanTarget (keyOf writeSource)])) \<and>
     (SetControllerReference gateway writeSource = Inr stamped \<and>
      objects w (scanTarget, keyOf writeSource) = Some existing \<and> \<not> ownedBy gateway existing \<longrightarrow>
        opIfNewOrOwned c gateway scanTarget writeSource op w =
          (Some errResourceNotOwned, logCall (GetCall scanTarget (keyOf writeSource)) w)) \<and>
     (SetControllerReference gateway writeSource = Inr stamped \<and>
      objects w (scanTarget, keyOf writeSource) = None \<longrightarrow>
        opIfNewOrOwned c gateway scanTarget writeSource op w =
          op None stamped (logCall (GetCall scanTarget (keyOf writeSource)) w)) \<and>
     (SetControllerReference gateway writeSource = Inr stamped \<and>
      objects w (scanTarget, keyOf writeSource) = Some existing \<and> ownedBy gateway existing \<longrightarrow>
        opIfNewOrOwned c gateway scanTarget writeSource op w =
          op (Some existing) stamped (logCall (GetCall scanTarget (keyOf writeSource)) w))"
proof (cases "SetControllerReference gateway writeSource")
  case (Inl err)
  then show ?thesis by (simp add: opIfNewOrOwned_def newCalls_def)
next
  case (Inr st)
  have key: "(GetNamespace st, GetName st) = keyOf writeSource"
    using stamped_props(2) [OF Inr] by (simp add: keyOf_def)
  have run: "opIfNewOrOwned c gateway scanTarget writeSource op w =
      (case objects w (scanTarget, keyOf writeSource) of
         None \<Rightarrow> op None st (logCall (GetCall scanTarget (keyOf writeSource)) w)
       | Some ex \<Rightarrow>
           if ownedBy gateway ex
           then op (Some ex) st (logCall (GetCall scanTarget (keyOf writeSource)) w)
           else (Some errResourceNotOwned, logCall (GetCall scanTarget (keyOf writeSource)) w))"
    using lookup
    by (simp add: opIfNewOrOwned_def Inr key Get_def ownedLoop_iff split: option.splits)
  show ?thesis
    unfolding run using Inr by (simp add: logCall_simps newCalls_def)
qed

theorem ownership_guard_witness:
  "getError exampleClient (ServiceKind, keyOf (ServiceObject exampleDesiredService)) = None \<and>
   SetControllerReference exampleGateway (ServiceObject exampleDesiredService) =
     Inr (ServiceObject exampleStampedService) \<and>
   objects manualWorld (ServiceKind, keyOf (ServiceObject exampleDesiredService)) =
     Some (ServiceObject exampleDriftedService) \<and>
   \<not> ownedBy exampleGateway (ServiceObject exampleDriftedService) \<and>
   opIfNewOrOwned exampleClient exampleGateway ServiceKind (ServiceObject exampleDesiredService)
       (mergeServiceOp exampleClient) manualWorld =
     (Some errResourceNotOwned,
      logCall (GetCall ServiceKind (keyOf (ServiceObject exampleDesiredService))) manualWorld) \<and>
   objects emptyWorld (ServiceKind, keyOf (ServiceObject exampleDesiredService)) = None \<and>
   opIfNewOrOwned exampleClient exampleGateway ServiceKind (ServiceObject exampleDesiredService)
       (mergeServiceOp exampleClient) emptyWorld =
     mergeServiceOp exampleClient None (ServiceObject exampleStampedService)
       (logCall (GetCall ServiceKind (keyOf (ServiceObject exampleDesiredService))) emptyWorld)"
proof -
  have lookup: "getError exampleClient (ServiceKind, keyOf (ServiceObject exampleDesiredService)) = None"
    by (simp add: exampleClient_def)
  have stored: "objects manualWorld (ServiceKind, keyOf (ServiceObject exampleDesiredService)) =
      Some (ServiceObject exampleDriftedService)"
    by (simp add: example_defs keyOf_def)
  have unowned: "\<not> ownedBy exampleGateway (ServiceObject exampleDriftedService)"
    by (simp add: ownedBy_def example_defs)
  have absent: "objects emptyWorld (ServiceKind, keyOf (ServiceObject exampleDesiredService)) = None"
    by (simp add: emptyWorld_def)
  from ownership_guard [OF lookup, of manualWorld "ServiceObject exampleDriftedService"
      exampleGateway "mergeServiceOp exampleClient" "ServiceObject exampleStampedService"]
    ownership_guard [OF lookup, of emptyWorld "ServiceObject exampleDriftedService"
      exampleGateway "mergeServiceOp exampleClient" "ServiceObject exampleStampedService"]
    example_stamp lookup stored unowned absent
  show ?thesis by simp
qed



text \<open>
  Claim C3 (Service merge equality law). When the observed Service is absent, or its
  annotation mapping equals the desired Service's and the two port lists agree element by
  element, in order, on port number and protocol, \<open>mergeService\<close> returns the desired
  Service unchanged.
\<close>

theorem service_merge_equality_law:
  assumes "from = None \<or>
           (\<exists>f t. from = Some f \<and> to = Some t \<and>
                  mapping_of (Annotations f) = mapping_of (Annotations t) \<and>
                  map portKey (Ports (Spec f)) = map portKey (Ports (Spec t)))"
  shows "mergeService from to = Inr to"
  using assms by (auto simp: mergeService_nil mergeService_Some)

theorem service_merge_equality_law_witness:
  "mapping_of (Annotations exampleNormalizedService) = mapping_of (Annotations exampleDesiredService) \<and>
   map portKey (Ports (Spec exampleNormalizedService)) = map portKey (Ports (Spec exampleDesiredService)) \<and>
   exampleNormalizedService \<noteq> exampleDesiredService \<and>
   mergeService (Some exampleNormalizedService) (Some exampleDesiredService) = Inr (Some exampleDesiredService) \<and>
   mergeService None (Some exampleDesiredService) = Inr (Some exampleDesiredService)"
proof -
  have a: "mapping_of (Annotations exampleNormalizedService) = mapping_of (Annotations exampleDesiredService)"
    by (simp add: exampleNormalizedService_def exampleDesiredService_def mapping_of_def)
  have p: "map portKey (Ports (Spec exampleNormalizedService)) = map portKey (Ports (Spec exampleDesiredService))"
    by (simp add: exampleNormalizedService_def exampleDesiredService_def portKey_def)
  have n: "exampleNormalizedService \<noteq> exampleDesiredService"
    by (simp add: exampleNormalizedService_def exampleDesiredService_def)
  have 1: "mergeService (Some exampleNormalizedService) (Some exampleDesiredService) = Inr (Some exampleDesiredService)"
    using a p by (intro service_merge_equality_law) simp
  have 2: "mergeService None (Some exampleDesiredService) = Inr (Some exampleDesiredService)"
    by (intro service_merge_equality_law) simp
  from a p n 1 2 show ?thesis by simp
qed

text \<open>
  Claim C4 (Service merge preservation law). When the observed Service's annotation
  mapping or its list of (port number, protocol) pairs differs from the desired
  Service's, the result of \<open>mergeService\<close> has exactly the observed annotations and
  exactly the observed port list, and each other field has the desired Service's value.
\<close>

theorem service_merge_preservation_law:
  assumes "mapping_of (Annotations f) \<noteq> mapping_of (Annotations t) \<or>
           map portKey (Ports (Spec f)) \<noteq> map portKey (Ports (Spec t))"
  shows "\<exists>m. mergeService (Some f) (Some t) = Inr (Some m) \<and>
             Annotations m = Annotations f \<and>
             Ports (Spec m) = Ports (Spec f) \<and>
             ObjectMeta.Name m = ObjectMeta.Name t \<and>
             Namespace m = Namespace t \<and>
             ObjectMeta.UID m = ObjectMeta.UID t \<and>
             Labels m = Labels t \<and>
             OwnerReferences m = OwnerReferences t \<and>
             Selector (Spec m) = Selector (Spec t) \<and>
             Type (Spec m) = Type (Spec t) \<and>
             m = t\<lparr>Annotations := Annotations f, Spec := (Spec t)\<lparr>Ports := Ports (Spec f)\<rparr>\<rparr>"
  using assms by (auto simp: mergeService_Some)

theorem service_merge_preservation_law_witness:
  "mapping_of (Annotations exampleDriftedService) \<noteq> mapping_of (Annotations exampleDesiredService) \<and>
   mergeService (Some exampleDriftedService) (Some exampleDesiredService) =
     Inr (Some (exampleDesiredService\<lparr>Annotations := Annotations exampleDriftedService,
                  Spec := (Spec exampleDesiredService)\<lparr>Ports := Ports (Spec exampleDriftedService)\<rparr>\<rparr>)) \<and>
   Type (Spec exampleDriftedService) \<noteq> Type (Spec exampleDesiredService)"
proof -
  have d: "mapping_of (Annotations exampleDriftedService) \<noteq>
           mapping_of (Annotations exampleDesiredService)"
    by (simp add: exampleDriftedService_def exampleDesiredService_def mapping_of_def)
  have ty: "Type (Spec exampleDriftedService) \<noteq> Type (Spec exampleDesiredService)"
    by (simp add: exampleDriftedService_def exampleDesiredService_def)
  from d service_merge_preservation_law [of exampleDriftedService exampleDesiredService] ty
  show ?thesis by auto
qed




text \<open>
  Claim C6 (owner reference). \<open>opIfNewOrOwned\<close> stamps the payload first: when stamping
  fails it returns that error without any call on the client; a stamped payload carries
  an owner reference with the parent's UID and name; and \<open>op\<close> only ever receives a
  payload that carries it, on the create path and on the update path alike (two
  operations that agree on such payloads give the same upsert). Hence every object of
  kind ServiceAccount, Role, RoleBinding or Service that a run of \<open>onCreateUpdate\<close> hands
  to \<^verbatim>\<open>CreateOrUpdate\<close> carries the reference, and so does the Deployment when the
  builder's merge function returns the owner references of the desired Deployment.
\<close>

theorem owner_reference_stamped:
  "(SetControllerReference gateway writeSource = Inl e \<longrightarrow>
      opIfNewOrOwned c gateway scanTarget writeSource op w = (Some e, w)) \<and>
   (SetControllerReference gateway writeSource = Inr stamped \<longrightarrow> ownedBy gateway stamped) \<and>
   ((\<forall>existing new v. ownedBy gateway new \<longrightarrow> op existing new v = op' existing new v) \<longrightarrow>
      opIfNewOrOwned c gateway scanTarget writeSource op w =
      opIfNewOrOwned c gateway scanTarget writeSource op' w) \<and>
   (onCreateUpdate newBuilder r gateway w = (err, w') \<longrightarrow>
      (\<forall>m. CreateOrUpdateCall m \<in> set (newCalls w w') \<and> kindOf m \<noteq> DeploymentKind \<longrightarrow>
           ownedBy gateway m)) \<and>
   (onCreateUpdate newBuilder r gateway w = (err, w') \<and>
    (\<forall>gcc existing d.
       OwnerReferences (MergeDeployments (newBuilder gateway (GatewayConfig r) gcc) gcc existing d) =
       OwnerReferences d) \<longrightarrow>
      (\<forall>m. CreateOrUpdateCall m \<in> set (newCalls w w') \<longrightarrow> ownedBy gateway m))"
proof (intro conjI impI)
  assume "SetControllerReference gateway writeSource = Inl e"
  then show "opIfNewOrOwned c gateway scanTarget writeSource op w = (Some e, w)"
    by (simp add: opIfNewOrOwned_def)
next
  assume "SetControllerReference gateway writeSource = Inr stamped"
  then show "ownedBy gateway stamped" by (rule stamped_props(5))
next
  assume eq: "\<forall>existing new v. ownedBy gateway new \<longrightarrow> op existing new v = op' existing new v"
  show "opIfNewOrOwned c gateway scanTarget writeSource op w =
        opIfNewOrOwned c gateway scanTarget writeSource op' w"
  proof (cases "SetControllerReference gateway writeSource")
    case (Inl e)
    then show ?thesis by (simp add: opIfNewOrOwned_def)
  next
    case (Inr st)
    from stamped_props(5) [OF Inr] eq have "op existing st v = op' existing st v" for existing v
      by blast
    with Inr show ?thesis
      by (simp add: opIfNewOrOwned_def split: prod.splits sum.splits)
  qed
next
  assume run: "onCreateUpdate newBuilder r gateway w = (err, w')"
  have "\<forall>m. CreateOrUpdateCall m \<in> set (newCalls w w') \<longrightarrow>
            (kindOf m \<noteq> DeploymentKind \<longrightarrow> ownedBy gateway m)"
    using run by (rule onCreateUpdate_writes) (auto simp: deploymentPayload_DeploymentKind)
  then show "\<forall>m. CreateOrUpdateCall m \<in> set (newCalls w w') \<and> kindOf m \<noteq> DeploymentKind \<longrightarrow>
           ownedBy gateway m"
    by blast
next
  assume a: "onCreateUpdate newBuilder r gateway w = (err, w') \<and>
    (\<forall>gcc existing d.
       OwnerReferences (MergeDeployments (newBuilder gateway (GatewayConfig r) gcc) gcc existing d) =
       OwnerReferences d)"
  then have run: "onCreateUpdate newBuilder r gateway w = (err, w')" by simp
  show "\<forall>m. CreateOrUpdateCall m \<in> set (newCalls w w') \<longrightarrow> ownedBy gateway m"
    using run
  proof (rule onCreateUpdate_writes)
    show "\<forall>m. ownedBy gateway m \<longrightarrow> ownedBy gateway m" by simp
    show "\<forall>gcc ex st m. ownedBy gateway st \<and>
              deploymentPayload (newBuilder gateway (GatewayConfig r) gcc) gcc ex st = Inr m \<longrightarrow>
              ownedBy gateway m"
      using a by (auto intro: deploymentPayload_owned)
  qed
qed

theorem owner_reference_stamped_witness:
  "SetControllerReference exampleGateway (ServiceObject exampleDesiredService) =
     Inr (ServiceObject exampleStampedService) \<and>
   ownedBy exampleGateway (ServiceObject exampleStampedService) \<and>
   CreateOrUpdateCall (RoleObject (exampleRole\<lparr>OwnerReferences := [controllerRef exampleGateway]\<rparr>))
     \<in> set (newCalls manualWorld (snd afterManual)) \<and>
   ownedBy exampleGateway
     (RoleObject (exampleRole\<lparr>OwnerReferences := [controllerRef exampleGateway]\<rparr>))"
proof -
  have run: "onCreateUpdate exampleNewBuilder exampleController exampleGateway manualWorld =
      (fst afterManual, snd afterManual)"
    by (simp add: afterManual_def)
  have mem: "CreateOrUpdateCall
      (RoleObject (exampleRole\<lparr>OwnerReferences := [controllerRef exampleGateway]\<rparr>))
     \<in> set (newCalls manualWorld (snd afterManual))"
    by (simp add: afterManual_calls)
  note t = owner_reference_stamped [where gateway = exampleGateway
      and writeSource = "ServiceObject exampleDesiredService"
      and stamped = "ServiceObject exampleStampedService"
      and newBuilder = exampleNewBuilder and r = exampleController and w = manualWorld
      and err = "fst afterManual" and w' = "snd afterManual"]
  from t have a: "SetControllerReference exampleGateway (ServiceObject exampleDesiredService) =
     Inr (ServiceObject exampleStampedService) \<longrightarrow>
       ownedBy exampleGateway (ServiceObject exampleStampedService)"
    and b: "onCreateUpdate exampleNewBuilder exampleController exampleGateway manualWorld =
        (fst afterManual, snd afterManual) \<longrightarrow>
      (\<forall>m. CreateOrUpdateCall m \<in> set (newCalls manualWorld (snd afterManual)) \<and>
           kindOf m \<noteq> DeploymentKind \<longrightarrow> ownedBy exampleGateway m)"
    by blast+
  from a example_stamp have 1: "ownedBy exampleGateway (ServiceObject exampleStampedService)"
    by simp
  from b [rule_format, OF run, of
      "RoleObject (exampleRole\<lparr>OwnerReferences := [controllerRef exampleGateway]\<rparr>)"] mem
  have 2: "ownedBy exampleGateway
     (RoleObject (exampleRole\<lparr>OwnerReferences := [controllerRef exampleGateway]\<rparr>))"
    by simp
  from example_stamp 1 mem 2 show ?thesis by simp
qed

text \<open>
  Claim C7 (build failure). When the class configuration resolves and building the
  Deployment fails with \<open>cause\<close>, a run of \<open>onCreateUpdate\<close> makes no call about a
  Deployment and leaves the stored Deployments as they were. Either it returns
  \<^verbatim>\<open>unable to build deployment\<close> wrapping \<open>cause\<close>, and then the ServiceAccount, Role,
  RoleBinding and Service are committed (nothing is rolled back), or it returns the error
  of one of these four upserts.

  Which of the two is decided by the four upserts themselves. From the world \<open>w0\<close> left
  by the class lookups: when the upserts of the ServiceAccount, the Role, the RoleBinding
  and the Service, each run on the world left by the one before it, all return no error,
  the run returns \<^verbatim>\<open>unable to build deployment\<close> wrapping \<open>cause\<close>, its world is the world
  left by the upsert of the Service, and the four kinds are committed there. When one of
  them returns an error \<open>e\<close>, the earlier ones having returned none, the run returns \<open>e\<close>
  wrapped in the message of that step and its world is the world that upsert left.
\<close>

theorem deployment_build_failure:
  assumes run: "onCreateUpdate newBuilder r gateway w = (err, w')"
    and cfg: "fst (getGatewayClassConfigForGateway (Client r) gateway w) = Inr gcc"
    and build: "Deployment (newBuilder gateway (GatewayConfig r) gcc) = Inl cause"
  shows "\<not> attempted DeploymentKind w w' \<and>
     (\<forall>key. objects w' (DeploymentKind, key) = objects w (DeploymentKind, key)) \<and>
     ((err = Some (Wrapped ''unable to build deployment'' cause) \<and>
       (\<forall>K. isChild K \<and> K \<noteq> DeploymentKind \<longrightarrow> committed K w w')) \<or>
      (\<exists>K e. isChild K \<and> K \<noteq> DeploymentKind \<and> err = Some (Wrapped (stepMessage K) e))) \<and>
     (\<forall>w0. getGatewayClassConfigForGateway (Client r) gateway w = (Inr gcc, w0) \<longrightarrow>
        (\<forall>w1 w2 w3 w4.
           opIfNewOrOwned (Client r) gateway ServiceAccountKind
            (ServiceAccountObject (ServiceAccount (newBuilder gateway (GatewayConfig r) gcc)))
            (upsertOp (Client r)) w0 = (None, w1) \<and>
           opIfNewOrOwned (Client r) gateway RoleKind
            (RoleObject (Role (newBuilder gateway (GatewayConfig r) gcc))) (upsertOp (Client r)) w1 = (None, w2) \<and>
           opIfNewOrOwned (Client r) gateway RoleBindingKind
            (RoleBindingObject (RoleBinding (newBuilder gateway (GatewayConfig r) gcc)))
            (upsertOp (Client r)) w2 = (None, w3) \<and>
           opIfNewOrOwned (Client r) gateway ServiceKind
            (ServiceObject (Service (newBuilder gateway (GatewayConfig r) gcc)))
            (mergeServiceOp (Client r)) w3 = (None, w4) \<longrightarrow>
           err = Some (Wrapped ''unable to build deployment'' cause) \<and> w' = w4 \<and>
           (\<forall>K. isChild K \<and> K \<noteq> DeploymentKind \<longrightarrow> committed K w w4)) \<and>
        (\<forall>e w1.
           opIfNewOrOwned (Client r) gateway ServiceAccountKind
            (ServiceAccountObject (ServiceAccount (newBuilder gateway (GatewayConfig r) gcc)))
            (upsertOp (Client r)) w0 = (Some e, w1) \<longrightarrow>
           err = Some (Wrapped ''unable to create service account'' e) \<and> w' = w1) \<and>
        (\<forall>w1 e w2.
           opIfNewOrOwned (Client r) gateway ServiceAccountKind
            (ServiceAccountObject (ServiceAccount (newBuilder gateway (GatewayConfig r) gcc)))
            (upsertOp (Client r)) w0 = (None, w1) \<and>
           opIfNewOrOwned (Client r) gateway RoleKind
            (RoleObject (Role (newBuilder gateway (GatewayConfig r) gcc))) (upsertOp (Client r)) w1 = (Some e, w2) \<longrightarrow>
           err = Some (Wrapped ''unable to create role'' e) \<and> w' = w2) \<and>
        (\<forall>w1 w2 e w3.
           opIfNewOrOwned (Client r) gateway ServiceAccountKind
            (ServiceAccountObject (ServiceAccount (newBuilder gateway (GatewayConfig r) gcc)))
            (upsertOp (Client r)) w0 = (None, w1) \<and>
           opIfNewOrOwned (Client r) gateway RoleKind
            (RoleObject (Role (newBuilder gateway (GatewayConfig r) gcc))) (upsertOp (Client r)) w1 = (None, w2) \<and>
           opIfNewOrOwned (Client r) gateway RoleBindingKind
            (RoleBindingObject (RoleBinding (newBuilder gateway (GatewayConfig r) gcc)))
            (upsertOp (Client r)) w2 = (Some e, w3) \<longrightarrow>
           err = Some (Wrapped ''unable to create role binding'' e) \<and> w' = w3) \<and>
        (\<forall>w1 w2 w3 e w4.
           opIfNewOrOwned (Client r) gateway ServiceAccountKind
            (ServiceAccountObject (ServiceAccount (newBuilder gateway (GatewayConfig r) gcc)))
            (upsertOp (Client r)) w0 = (None, w1) \<and>
           opIfNewOrOwned (Client r) gateway RoleKind
            (RoleObject (Role (newBuilder gateway (GatewayConfig r) gcc))) (upsertOp (Client r)) w1 = (None, w2) \<and>
           opIfNewOrOwned (Client r) gateway RoleBindingKind
            (RoleBindingObject (RoleBinding (newBuilder gateway (GatewayConfig r) gcc)))
            (upsertOp (Client r)) w2 = (None, w3) \<and>
           opIfNewOrOwned (Client r) gateway ServiceKind
            (ServiceObject (Service (newBuilder gateway (GatewayConfig r) gcc)))
            (mergeServiceOp (Client r)) w3 = (Some e, w4) \<longrightarrow>
           err = Some (Wrapped ''unable to create service'' e) \<and> w' = w4))"
proof -
  have old: "\<not> attempted DeploymentKind w w' \<and>
     (\<forall>key. objects w' (DeploymentKind, key) = objects w (DeploymentKind, key)) \<and>
     ((err = Some (Wrapped ''unable to build deployment'' cause) \<and>
       (\<forall>K. isChild K \<and> K \<noteq> DeploymentKind \<longrightarrow> committed K w w')) \<or>
      (\<exists>K e. isChild K \<and> K \<noteq> DeploymentKind \<and> err = Some (Wrapped (stepMessage K) e)))"
    using run
  proof (cases rule: onCreateUpdate_log)
  case (config_failed e)
  with cfg show ?thesis by simp
next
  case (ran gcc' w0)
  with cfg have gcc: "gcc' = gcc" by simp
  define b where "b = newBuilder gateway (GatewayConfig r) gcc"
  define four where "four = butlast (pipelineSteps (Client r) gateway b gcc)"
  have all: "\<forall>(K, s) \<in> set (pipelineSteps (Client r) gateway b gcc).
               stepLog (\<lambda>m. True) K s \<and> isChild K"
    by (rule pipelineSteps_log) simp_all
  have "set four \<subseteq> set (pipelineSteps (Client r) gateway b gcc)"
    unfolding four_def by (auto dest: in_set_butlastD)
  with all have four_log: "\<forall>(K, s) \<in> set four. stepLog (\<lambda>m. True) K s \<and> isChild K"
    by blast
  have four_sorted: "sorted_wrt (\<lambda>a b. rank (fst a) < rank (fst b)) four"
    by (simp add: four_def pipelineSteps_def)
  have four_kinds: "fst ` set four = {K. isChild K \<and> K \<noteq> DeploymentKind}"
    unfolding four_def by (rule butlast_pipelineSteps_kinds)
  obtain e4 w4 where r4: "runSteps four w0 = (e4, w4)" by (cases "runSteps four w0")
  have rl: "runLog (\<lambda>m. True) {K. isChild K \<and> K \<noteq> DeploymentKind} w0 e4 w4"
    using runSteps_log [OF four_log four_sorted r4] by (simp only: four_kinds)
  have dep: "deploymentStep (Client r) gateway b gcc w4 = (Some (Wrapped buildMessage cause), w4)"
    using build by (simp add: deploymentStep_def b_def Errorf_def)
  from ran(2) have whole: "runSteps (four @ [(DeploymentKind, deploymentStep (Client r) gateway b gcc)]) w0
      = (err, w')"
    unfolding gcc b_def [symmetric] four_def
    using pipelineSteps_split [of "Client r" gateway b gcc] by simp
  have res: "w' = w4 \<and> err = (case e4 of Some e \<Rightarrow> Some e | None \<Rightarrow> Some (Wrapped buildMessage cause))"
    using whole r4 dep by (auto simp: runSteps_append split: option.splits)
  then have w': "w' = w4" by simp
  note c4 = runLogD(1) [OF rl] and k4 = runLogD(3) [OF rl] and f4 = runLogD(5) [OF rl]
    and t4 = runLogD(9) [OF rl] and d4 = runLogD(11) [OF rl]
  have nc: "newCalls w w' = newCalls w w0 @ newCalls w0 w4"
    using ran(9) w' by simp
  have 1: "\<not> attempted DeploymentKind w w'"
    using ran(5) k4 by (auto simp: attempted_def nc isChild_def)
  have 2: "\<forall>key. objects w' (DeploymentKind, key) = objects w (DeploymentKind, key)"
    using f4 ran(7) w' by (simp del: split_paired_All)
  show ?thesis
  proof (cases e4)
    case None
    with res have "err = Some (Wrapped ''unable to build deployment'' cause)"
      by (simp add: buildMessage_def)
    moreover have "committed K w w'" if "isChild K \<and> K \<noteq> DeploymentKind" for K
    proof -
      from d4 None that have "committed K w0 w4" by simp
      then show ?thesis unfolding w' by (rule committed_mono_left [OF _ ran(3) c4])
    qed
    ultimately show ?thesis using 1 2 by blast
  next
    case (Some e)
    with t4 obtain K msg c where K: "isChild K" "K \<noteq> DeploymentKind"
      and e: "e = Wrapped msg c" "failureMessage K msg"
      by auto
    from K(2) e(2) have "msg = stepMessage K" by (simp add: failureMessage_def)
    with Some res e K have "\<exists>K e. isChild K \<and> K \<noteq> DeploymentKind \<and>
        err = Some (Wrapped (stepMessage K) e)"
      by auto
    with 1 2 show ?thesis by blast
  qed
qed
  have steps: "(\<forall>w0. getGatewayClassConfigForGateway (Client r) gateway w = (Inr gcc, w0) \<longrightarrow>
        (\<forall>w1 w2 w3 w4.
           opIfNewOrOwned (Client r) gateway ServiceAccountKind
            (ServiceAccountObject (ServiceAccount (newBuilder gateway (GatewayConfig r) gcc)))
            (upsertOp (Client r)) w0 = (None, w1) \<and>
           opIfNewOrOwned (Client r) gateway RoleKind
            (RoleObject (Role (newBuilder gateway (GatewayConfig r) gcc))) (upsertOp (Client r)) w1 = (None, w2) \<and>
           opIfNewOrOwned (Client r) gateway RoleBindingKind
            (RoleBindingObject (RoleBinding (newBuilder gateway (GatewayConfig r) gcc)))
            (upsertOp (Client r)) w2 = (None, w3) \<and>
           opIfNewOrOwned (Client r) gateway ServiceKind
            (ServiceObject (Service (newBuilder gateway (GatewayConfig r) gcc)))
            (mergeServiceOp (Client r)) w3 = (None, w4) \<longrightarrow>
           err = Some (Wrapped ''unable to build deployment'' cause) \<and> w' = w4) \<and>
        (\<forall>e w1.
           opIfNewOrOwned (Client r) gateway ServiceAccountKind
            (ServiceAccountObject (ServiceAccount (newBuilder gateway (GatewayConfig r) gcc)))
            (upsertOp (Client r)) w0 = (Some e, w1) \<longrightarrow>
           err = Some (Wrapped ''unable to create service account'' e) \<and> w' = w1) \<and>
        (\<forall>w1 e w2.
           opIfNewOrOwned (Client r) gateway ServiceAccountKind
            (ServiceAccountObject (ServiceAccount (newBuilder gateway (GatewayConfig r) gcc)))
            (upsertOp (Client r)) w0 = (None, w1) \<and>
           opIfNewOrOwned (Client r) gateway RoleKind
            (RoleObject (Role (newBuilder gateway (GatewayConfig r) gcc))) (upsertOp (Client r)) w1 = (Some e, w2) \<longrightarrow>
           err = Some (Wrapped ''unable to create role'' e) \<and> w' = w2) \<and>
        (\<forall>w1 w2 e w3.
           opIfNewOrOwned (Client r) gateway ServiceAccountKind
            (ServiceAccountObject (ServiceAccount (newBuilder gateway (GatewayConfig r) gcc)))
            (upsertOp (Client r)) w0 = (None, w1) \<and>
           opIfNewOrOwned (Client r) gateway RoleKind
            (RoleObject (Role (newBuilder gateway (GatewayConfig r) gcc))) (upsertOp (Client r)) w1 = (None, w2) \<and>
           opIfNewOrOwned (Client r) gateway RoleBindingKind
            (RoleBindingObject (RoleBinding (newBuilder gateway (GatewayConfig r) gcc)))
            (upsertOp (Client r)) w2 = (Some e, w3) \<longrightarrow>
           err = Some (Wrapped ''unable to create role binding'' e) \<and> w' = w3) \<and>
        (\<forall>w1 w2 w3 e w4.
           opIfNewOrOwned (Client r) gateway ServiceAccountKind
            (ServiceAccountObject (ServiceAccount (newBuilder gateway (GatewayConfig r) gcc)))
            (upsertOp (Client r)) w0 = (None, w1) \<and>
           opIfNewOrOwned (Client r) gateway RoleKind
            (RoleObject (Role (newBuilder gateway (GatewayConfig r) gcc))) (upsertOp (Client r)) w1 = (None, w2) \<and>
           opIfNewOrOwned (Client r) gateway RoleBindingKind
            (RoleBindingObject (RoleBinding (newBuilder gateway (GatewayConfig r) gcc)))
            (upsertOp (Client r)) w2 = (None, w3) \<and>
           opIfNewOrOwned (Client r) gateway ServiceKind
            (ServiceObject (Service (newBuilder gateway (GatewayConfig r) gcc)))
            (mergeServiceOp (Client r)) w3 = (Some e, w4) \<longrightarrow>
           err = Some (Wrapped ''unable to create service'' e) \<and> w' = w4))"
    using run build
    by (auto simp: onCreateUpdate_def Let_def Errorf_def)
  have kept: "committed K w w'"
    if "err = Some (Wrapped ''unable to build deployment'' cause)"
      "isChild K \<and> K \<noteq> DeploymentKind" for K
  proof -
    from that(1) have "\<not> (\<exists>K e. isChild K \<and> K \<noteq> DeploymentKind \<and>
        err = Some (Wrapped (stepMessage K) e))"
      by (auto simp: isChild_def)
    with old that(2) show ?thesis by blast
  qed
  have explicit: "(\<forall>w0. getGatewayClassConfigForGateway (Client r) gateway w = (Inr gcc, w0) \<longrightarrow>
        (\<forall>w1 w2 w3 w4.
           opIfNewOrOwned (Client r) gateway ServiceAccountKind
            (ServiceAccountObject (ServiceAccount (newBuilder gateway (GatewayConfig r) gcc)))
            (upsertOp (Client r)) w0 = (None, w1) \<and>
           opIfNewOrOwned (Client r) gateway RoleKind
            (RoleObject (Role (newBuilder gateway (GatewayConfig r) gcc))) (upsertOp (Client r)) w1 = (None, w2) \<and>
           opIfNewOrOwned (Client r) gateway RoleBindingKind
            (RoleBindingObject (RoleBinding (newBuilder gateway (GatewayConfig r) gcc)))
            (upsertOp (Client r)) w2 = (None, w3) \<and>
           opIfNewOrOwned (Client r) gateway ServiceKind
            (ServiceObject (Service (newBuilder gateway (GatewayConfig r) gcc)))
            (mergeServiceOp (Client r)) w3 = (None, w4) \<longrightarrow>
           err = Some (Wrapped ''unable to build deployment'' cause) \<and> w' = w4 \<and>
           (\<forall>K. isChild K \<and> K \<noteq> DeploymentKind \<longrightarrow> committed K w w4)) \<and>
        (\<forall>e w1.
           opIfNewOrOwned (Client r) gateway ServiceAccountKind
            (ServiceAccountObject (ServiceAccount (newBuilder gateway (GatewayConfig r) gcc)))
            (upsertOp (Client r)) w0 = (Some e, w1) \<longrightarrow>
           err = Some (Wrapped ''unable to create service account'' e) \<and> w' = w1) \<and>
        (\<forall>w1 e w2.
           opIfNewOrOwned (Client r) gateway ServiceAccountKind
            (ServiceAccountObject (ServiceAccount (newBuilder gateway (GatewayConfig r) gcc)))
            (upsertOp (Client r)) w0 = (None, w1) \<and>
           opIfNewOrOwned (Client r) gateway RoleKind
            (RoleObject (Role (newBuilder gateway (GatewayConfig r) gcc))) (upsertOp (Client r)) w1 = (Some e, w2) \<longrightarrow>
           err = Some (Wrapped ''unable to create role'' e) \<and> w' = w2) \<and>
        (\<forall>w1 w2 e w3.
           opIfNewOrOwned (Client r) gateway ServiceAccountKind
            (ServiceAccountObject (ServiceAccount (newBuilder gateway (GatewayConfig r) gcc)))
            (upsertOp (Client r)) w0 = (None, w1) \<and>
           opIfNewOrOwned (Client r) gateway RoleKind
            (RoleObject (Role (newBuilder gateway (GatewayConfig r) gcc))) (upsertOp (Client r)) w1 = (None, w2) \<and>
           opIfNewOrOwned (Client r) gateway RoleBindingKind
            (RoleBindingObject (RoleBinding (newBuilder gateway (GatewayConfig r) gcc)))
            (upsertOp (Client r)) w2 = (Some e, w3) \<longrightarrow>
           err = Some (Wrapped ''unable to create role binding'' e) \<and> w' = w3) \<and>
        (\<forall>w1 w2 w3 e w4.
           opIfNewOrOwned (Client r) gateway ServiceAccountKind
            (ServiceAccountObject (ServiceAccount (newBuilder gateway (GatewayConfig r) gcc)))
            (upsertOp (Client r)) w0 = (None, w1) \<and>
           opIfNewOrOwned (Client r) gateway RoleKind
            (RoleObject (Role (newBuilder gateway (GatewayConfig r) gcc))) (upsertOp (Client r)) w1 = (None, w2) \<and>
           opIfNewOrOwned (Client r) gateway RoleBindingKind
            (RoleBindingObject (RoleBinding (newBuilder gateway (GatewayConfig r) gcc)))
            (upsertOp (Client r)) w2 = (None, w3) \<and>
           opIfNewOrOwned (Client r) gateway ServiceKind
            (ServiceObject (Service (newBuilder gateway (GatewayConfig r) gcc)))
            (mergeServiceOp (Client r)) w3 = (Some e, w4) \<longrightarrow>
           err = Some (Wrapped ''unable to create service'' e) \<and> w' = w4))"
    using steps kept by (simp del: split_paired_All) blast
  note o1 = old [THEN conjunct1]
    and o2 = old [THEN conjunct2, THEN conjunct1]
    and o3 = old [THEN conjunct2, THEN conjunct2]
  show ?thesis
    by (intro conjI) (rule o1 o2 o3 explicit)+
qed


theorem deployment_build_failure_witness:
  "fst (getGatewayClassConfigForGateway (Client exampleController) exampleGateway emptyWorld) =
     Inr None \<and>
   Deployment (failingNewBuilder exampleGateway (GatewayConfig exampleController) None) =
     Inl (Plain ''invalid class configuration'') \<and>
   fst afterBuildFailure =
     Some (Wrapped ''unable to build deployment'' (Plain ''invalid class configuration'')) \<and>
   \<not> attempted DeploymentKind emptyWorld (snd afterBuildFailure) \<and>
   objects (snd afterBuildFailure) (DeploymentKind, exampleKey) = None \<and>
   committed ServiceAccountKind emptyWorld (snd afterBuildFailure) \<and>
   committed RoleKind emptyWorld (snd afterBuildFailure) \<and>
   committed RoleBindingKind emptyWorld (snd afterBuildFailure) \<and>
   committed ServiceKind emptyWorld (snd afterBuildFailure)"
proof -
  define c where "c = Client exampleController"
  define b where "b = failingNewBuilder exampleGateway (GatewayConfig exampleController) None"
  define w0 where "w0 = snd (getGatewayClassConfigForGateway c exampleGateway emptyWorld)"
  define w1 where "w1 = snd (opIfNewOrOwned c exampleGateway ServiceAccountKind
      (ServiceAccountObject (ServiceAccount b)) (upsertOp c) w0)"
  define w2 where "w2 = snd (opIfNewOrOwned c exampleGateway RoleKind
      (RoleObject (Role b)) (upsertOp c) w1)"
  define w3 where "w3 = snd (opIfNewOrOwned c exampleGateway RoleBindingKind
      (RoleBindingObject (RoleBinding b)) (upsertOp c) w2)"
  define w4 where "w4 = snd (opIfNewOrOwned c exampleGateway ServiceKind
      (ServiceObject (Service b)) (mergeServiceOp c) w3)"
  have run: "onCreateUpdate failingNewBuilder exampleController exampleGateway emptyWorld =
      (fst afterBuildFailure, snd afterBuildFailure)"
    by (simp add: afterBuildFailure_def)
  have cfg: "fst (getGatewayClassConfigForGateway (Client exampleController) exampleGateway
      emptyWorld) = Inr None"
    by (simp add: model_defs example_defs)
  then have cfg0: "getGatewayClassConfigForGateway (Client exampleController) exampleGateway
      emptyWorld = (Inr None, w0)"
    by (simp add: w0_def c_def prod_eq_iff)
  have build: "Deployment (failingNewBuilder exampleGateway (GatewayConfig exampleController) None) =
      Inl (Plain ''invalid class configuration'')"
    by (simp add: example_defs)
  have "fst (opIfNewOrOwned c exampleGateway ServiceAccountKind
      (ServiceAccountObject (ServiceAccount b)) (upsertOp c) w0) = None"
    by (simp add: w0_def c_def b_def model_defs example_defs)
  then have sa: "opIfNewOrOwned c exampleGateway ServiceAccountKind
      (ServiceAccountObject (ServiceAccount b)) (upsertOp c) w0 = (None, w1)"
    by (simp add: w1_def prod_eq_iff)
  have "fst (opIfNewOrOwned c exampleGateway RoleKind
      (RoleObject (Role b)) (upsertOp c) w1) = None"
    by (simp add: w1_def w0_def c_def b_def model_defs example_defs)
  then have role: "opIfNewOrOwned c exampleGateway RoleKind
      (RoleObject (Role b)) (upsertOp c) w1 = (None, w2)"
    by (simp add: w2_def prod_eq_iff)
  have "fst (opIfNewOrOwned c exampleGateway RoleBindingKind
      (RoleBindingObject (RoleBinding b)) (upsertOp c) w2) = None"
    by (simp add: w2_def w1_def w0_def c_def b_def model_defs example_defs)
  then have rb: "opIfNewOrOwned c exampleGateway RoleBindingKind
      (RoleBindingObject (RoleBinding b)) (upsertOp c) w2 = (None, w3)"
    by (simp add: w3_def prod_eq_iff)
  have "fst (opIfNewOrOwned c exampleGateway ServiceKind
      (ServiceObject (Service b)) (mergeServiceOp c) w3) = None"
    by (simp add: w3_def w2_def w1_def w0_def c_def b_def model_defs example_defs
          mergeService_nil)
  then have svc: "opIfNewOrOwned c exampleGateway ServiceKind
      (ServiceObject (Service b)) (mergeServiceOp c) w3 = (None, w4)"
    by (simp add: w4_def prod_eq_iff)
  note t = deployment_build_failure [OF run cfg build]
  note 1 = t [THEN conjunct1] and 2 = t [THEN conjunct2, THEN conjunct1]
    and x = t [THEN conjunct2, THEN conjunct2, THEN conjunct2, rule_format, OF cfg0,
               THEN conjunct1, rule_format, of w1 w2 w3 w4]
  from x sa role rb svc
  have e: "fst afterBuildFailure =
      Some (Wrapped ''unable to build deployment'' (Plain ''invalid class configuration''))"
    and w': "snd afterBuildFailure = w4"
    and k: "\<forall>K. isChild K \<and> K \<noteq> DeploymentKind \<longrightarrow> committed K emptyWorld w4"
    unfolding c_def b_def by blast+
  from 2 have 3: "objects (snd afterBuildFailure) (DeploymentKind, exampleKey) = None"
    by (simp add: emptyWorld_def exampleKey_def)
  from k [rule_format, of ServiceAccountKind] k [rule_format, of RoleKind]
    k [rule_format, of RoleBindingKind] k [rule_format, of ServiceKind]
    cfg build e 1 3 w'
  show ?thesis by (simp add: isChild_simps)
qed

text \<open>
  Claim C8 (class configuration). With \<open>n\<close> the class name of the gateway: an absent
  gateway class, a parameters reference of another group or kind, and an absent
  configuration object each give the \<^verbatim>\<open>nil\<close> configuration and no error. A lookup of the
  class or of the configuration that fails with an error other than "not found" is
  returned by \<open>onCreateUpdate\<close> as it is, and the only calls of the run are the class
  lookups: no upsert is made.
\<close>

theorem class_config_resolution:
  assumes n: "n = GatewayClassName (MeshGateway.Spec gateway)"
  shows
    "(getError (Client r) (GatewayClassKind, ([], n)) = None \<and> gatewayClasses w n = None \<longrightarrow>
        fst (getGatewayClassConfigForGateway (Client r) gateway w) = Inr None) \<and>
     (getError (Client r) (GatewayClassKind, ([], n)) = None \<and> gatewayClasses w n = Some gc \<and>
      ParametersRef (GatewayClass.Spec gc) = Some ref \<and>
      (Group ref \<noteq> MeshGroup \<or> ParametersReference.Kind ref \<noteq> ''GatewayClassConfig'') \<longrightarrow>
        fst (getGatewayClassConfigForGateway (Client r) gateway w) = Inr None) \<and>
     (getError (Client r) (GatewayClassKind, ([], n)) = None \<and> gatewayClasses w n = Some gc \<and>
      ParametersRef (GatewayClass.Spec gc) = Some ref \<and>
      Group ref = MeshGroup \<and> ParametersReference.Kind ref = ''GatewayClassConfig'' \<and>
      getError (Client r) (GatewayClassConfigKind, ([], ParametersReference.Name ref)) = None \<and>
      gatewayClassConfigs w (ParametersReference.Name ref) = None \<longrightarrow>
        fst (getGatewayClassConfigForGateway (Client r) gateway w) = Inr None) \<and>
     (getError (Client r) (GatewayClassKind, ([], n)) = Some err \<and> \<not> IsNotFound err \<longrightarrow>
        fst (getGatewayClassConfigForGateway (Client r) gateway w) = Inl err \<and>
        onCreateUpdate newBuilder r gateway w =
          (Some err, logCall (GetCall GatewayClassKind ([], n)) w)) \<and>
     (getError (Client r) (GatewayClassKind, ([], n)) = None \<and> gatewayClasses w n = Some gc \<and>
      ParametersRef (GatewayClass.Spec gc) = Some ref \<and>
      Group ref = MeshGroup \<and> ParametersReference.Kind ref = ''GatewayClassConfig'' \<and>
      getError (Client r) (GatewayClassConfigKind, ([], ParametersReference.Name ref)) = Some err \<and>
      \<not> IsNotFound err \<longrightarrow>
        fst (getGatewayClassConfigForGateway (Client r) gateway w) = Inl err \<and>
        onCreateUpdate newBuilder r gateway w =
          (Some err,
           logCall (GetCall GatewayClassConfigKind ([], ParametersReference.Name ref))
             (logCall (GetCall GatewayClassKind ([], n)) w)))"
  unfolding n
  by (auto simp: onCreateUpdate_runSteps getGatewayClassConfigForGateway_def
        getGatewayClassForGateway_def getGatewayClassConfigForGatewayClass_def
        GetGatewayClass_def GetGatewayClassConfig_def IgnoreNotFound_def logCall_def)

theorem class_config_resolution_witness:
  "''mesh'' = GatewayClassName (MeshGateway.Spec exampleGateway) \<and>
   getError (Client exampleController) (GatewayClassKind, ([], ''mesh'')) = None \<and>
   gatewayClasses emptyWorld ''mesh'' = None \<and>
   fst (getGatewayClassConfigForGateway (Client exampleController) exampleGateway emptyWorld) =
     Inr None \<and>
   gatewayClasses classWorld ''mesh'' = Some exampleGatewayClass \<and>
   ParametersRef (GatewayClass.Spec exampleGatewayClass) =
     Some \<lparr>Group = ''v1'', ParametersReference.Kind = ''ConfigMap'',
           ParametersReference.Name = ''mesh-config''\<rparr> \<and>
   ''v1'' \<noteq> MeshGroup \<and>
   fst (getGatewayClassConfigForGateway (Client exampleController) exampleGateway classWorld) =
     Inr None \<and>
   getError (Client timeoutController) (GatewayClassKind, ([], ''mesh'')) =
     Some (ApiError ''timeout'') \<and>
   \<not> IsNotFound (ApiError ''timeout'') \<and>
   onCreateUpdate exampleNewBuilder timeoutController exampleGateway emptyWorld =
     (Some (ApiError ''timeout''), logCall (GetCall GatewayClassKind ([], ''mesh'')) emptyWorld)"
proof -
  have n: "''mesh'' = GatewayClassName (MeshGateway.Spec exampleGateway)"
    by (simp add: exampleGateway_def)
  have ok: "getError (Client exampleController) (GatewayClassKind, ([], ''mesh'')) = None"
    by (simp add: example_defs)
  have absent: "gatewayClasses emptyWorld ''mesh'' = None"
    by (simp add: emptyWorld_def)
  have present: "gatewayClasses classWorld ''mesh'' = Some exampleGatewayClass"
    by (simp add: classWorld_def)
  have ref: "ParametersRef (GatewayClass.Spec exampleGatewayClass) =
      Some \<lparr>Group = ''v1'', ParametersReference.Kind = ''ConfigMap'',
            ParametersReference.Name = ''mesh-config''\<rparr>"
    by (simp add: exampleGatewayClass_def)
  have wrong: "Group \<lparr>Group = ''v1'', ParametersReference.Kind = ''ConfigMap'',
            ParametersReference.Name = ''mesh-config''\<rparr> \<noteq> MeshGroup"
    by (simp add: MeshGroup_def)
  have fault: "getError (Client timeoutController) (GatewayClassKind, ([], ''mesh'')) =
      Some (ApiError ''timeout'')"
    by (simp add: timeoutController_def)
  have nf: "\<not> IsNotFound (ApiError ''timeout'')" by simp
  from class_config_resolution [OF n, where r = exampleController and w = emptyWorld] ok absent
  have 1: "fst (getGatewayClassConfigForGateway (Client exampleController) exampleGateway
      emptyWorld) = Inr None"
    by blast
  from class_config_resolution [OF n, where r = exampleController and w = classWorld
      and gc = exampleGatewayClass
      and ref = "\<lparr>Group = ''v1'', ParametersReference.Kind = ''ConfigMap'',
            ParametersReference.Name = ''mesh-config''\<rparr>"] ok present ref wrong
  have 2: "fst (getGatewayClassConfigForGateway (Client exampleController) exampleGateway
      classWorld) = Inr None"
    by blast
  from class_config_resolution [OF n, where r = timeoutController and w = emptyWorld
      and err = "ApiError ''timeout''" and newBuilder = exampleNewBuilder] fault nf
  have 3: "onCreateUpdate exampleNewBuilder timeoutController exampleGateway emptyWorld =
     (Some (ApiError ''timeout''), logCall (GetCall GatewayClassKind ([], ''mesh'')) emptyWorld)"
    by blast
  from n ok absent 1 present ref wrong 2 fault nf 3 show ?thesis by simp
qed

text \<open>
  Claim C9. The Service merge is idempotent in its second argument. The merge of \<open>from\<close>
  into \<open>to\<close> returns a result \<open>r\<close> that equals \<open>from\<close> in the sense of
  \<^verbatim>\<open>areServicesEqual\<close>: when both are present, \<open>r\<close> has the annotations of \<open>from\<close> and its
  list of (port, protocol) pairs. Merging \<open>from\<close> into \<open>r\<close> gives \<open>r\<close> again.
\<close>

theorem service_merge_idempotent:
  "\<exists>r. mergeService from to = Inr r \<and>
       areServicesEqual from r = Inr True \<and>
       mergeService from r = Inr r \<and>
       (\<forall>f m. from = Some f \<and> r = Some m \<longrightarrow>
          mapping_of (Annotations m) = mapping_of (Annotations f) \<and>
          map portKey (Ports (Spec m)) = map portKey (Ports (Spec f)))"
proof (cases "from")
  case None
  then show ?thesis by (simp add: mergeService_nil areServicesEqual_nil)
next
  case (Some f)
  show ?thesis
  proof (cases to)
    case None
    with Some show ?thesis by (simp add: mergeService_nil areServicesEqual_nil)
  next
    case t: (Some t)
    show ?thesis
    proof (cases "mapping_of (Annotations f) = mapping_of (Annotations t) \<and>
                  map portKey (Ports (Spec f)) = map portKey (Ports (Spec t))")
      case True
      with Some t show ?thesis by (simp add: mergeService_Some areServicesEqual_Some)
    next
      case False
      with Some t show ?thesis by (simp add: mergeService_Some areServicesEqual_Some)
    qed
  qed
qed

theorem service_merge_idempotent_witness:
  "mergeService (Some exampleDriftedService) (Some exampleDesiredService) =
     Inr (Some (exampleDesiredService\<lparr>Annotations := Annotations exampleDriftedService,
                  Spec := (Spec exampleDesiredService)\<lparr>Ports := Ports (Spec exampleDriftedService)\<rparr>\<rparr>)) \<and>
   areServicesEqual (Some exampleDriftedService)
     (Some (exampleDesiredService\<lparr>Annotations := Annotations exampleDriftedService,
              Spec := (Spec exampleDesiredService)\<lparr>Ports := Ports (Spec exampleDriftedService)\<rparr>\<rparr>)) =
     Inr True \<and>
   mergeService (Some exampleDriftedService)
     (Some (exampleDesiredService\<lparr>Annotations := Annotations exampleDriftedService,
              Spec := (Spec exampleDesiredService)\<lparr>Ports := Ports (Spec exampleDriftedService)\<rparr>\<rparr>)) =
     Inr (Some (exampleDesiredService\<lparr>Annotations := Annotations exampleDriftedService,
                  Spec := (Spec exampleDesiredService)\<lparr>Ports := Ports (Spec exampleDriftedService)\<rparr>\<rparr>)) \<and>
   exampleDesiredService\<lparr>Annotations := Annotations exampleDriftedService,
       Spec := (Spec exampleDesiredService)\<lparr>Ports := Ports (Spec exampleDriftedService)\<rparr>\<rparr> \<noteq>
     exampleDesiredService"
proof -
  let ?X = "exampleDesiredService\<lparr>Annotations := Annotations exampleDriftedService,
       Spec := (Spec exampleDesiredService)\<lparr>Ports := Ports (Spec exampleDriftedService)\<rparr>\<rparr>"
  have m: "mergeService (Some exampleDriftedService) (Some exampleDesiredService) = Inr (Some ?X)"
    by (simp add: mergeService_Some mapping_of_def exampleDriftedService_def
          exampleDesiredService_def)
  have d: "?X \<noteq> exampleDesiredService"
    by (simp add: exampleDriftedService_def exampleDesiredService_def)
  from service_merge_idempotent [of "Some exampleDriftedService" "Some exampleDesiredService"]
  obtain r where "mergeService (Some exampleDriftedService) (Some exampleDesiredService) = Inr r"
    "areServicesEqual (Some exampleDriftedService) r = Inr True"
    "mergeService (Some exampleDriftedService) r = Inr r"
    by blast
  with m d show ?thesis by simp
qed

text \<open>
  Claim C10. \<open>areServicesEqual\<close> and \<open>mergeService\<close> never panic, whatever pointers are
  \<^verbatim>\<open>nil\<close>: \<open>areServicesEqual\<close> is true as soon as one argument is \<^verbatim>\<open>nil\<close>, and then
  \<open>mergeService\<close> returns \<open>to\<close> as it is.
\<close>

theorem services_total_on_nil:
  "areServicesEqual None b = Inr True \<and>
   areServicesEqual a None = Inr True \<and>
   mergeService None to = Inr to \<and>
   mergeService from None = Inr None \<and>
   (\<exists>eq. areServicesEqual a b = Inr eq) \<and>
   (\<exists>r. mergeService from to = Inr r)"
proof -
  have "\<exists>eq. areServicesEqual a b = Inr eq"
    by (cases a; cases b) (auto simp: areServicesEqual_nil areServicesEqual_Some)
  moreover have "\<exists>r. mergeService from to = Inr r"
    by (cases "from"; cases to) (simp_all add: mergeService_nil mergeService_Some)
  ultimately show ?thesis
    by (simp add: areServicesEqual_nil mergeService_nil)
qed

theorem services_total_on_nil_witness:
  "areServicesEqual None (Some exampleDesiredService) = Inr True \<and>
   areServicesEqual (Some exampleDriftedService) None = Inr True \<and>
   mergeService None (Some exampleDesiredService) = Inr (Some exampleDesiredService) \<and>
   mergeService (Some exampleDriftedService) None = Inr None \<and>
   (\<exists>eq. areServicesEqual (Some exampleDriftedService) (Some exampleDesiredService) = Inr eq) \<and>
   (\<exists>r. mergeService (Some exampleDriftedService) (Some exampleDesiredService) = Inr r)"
  using services_total_on_nil [of "Some exampleDesiredService" "Some exampleDriftedService"
      "Some exampleDesiredService" "Some exampleDriftedService"]
  by (simp add: areServicesEqual_nil mergeService_nil)

end
